theory Spec2Isabelle
  imports
    Main
    "HOL-Library.Sublist"
    "HOL-Library.Char_ord"
    "HOL-Library.List_Lexorder"
    "HOL-Library.Multiset"
begin

section \<open>Python strings\<close>

text \<open>
  The query engine of \<^verbatim>\<open>src/python/query_engine.py\<close> works on Python \<^verbatim>\<open>str\<close>
  values. They are modelled as \<^typ>\<open>string\<close>: a character is a code point below 256,
  and the case mapping and the whitespace class are Python's on that range. Strings are
  compared as Python compares them, lexicographically by code point.
\<close>

text \<open>\<^verbatim>\<open>c.lower()\<close> for one character: the letters A to Z, and the capital letters
  from 192 to 222 other than the multiplication sign 215, move up by 32.\<close>

definition lower_char :: "char \<Rightarrow> char" where
  "lower_char c =
     (let n = (of_char c :: nat)
      in if (65 \<le> n \<and> n \<le> 90) \<or> (192 \<le> n \<and> n \<le> 222 \<and> n \<noteq> 215)
         then char_of (n + 32) else c)"

text \<open>\<^verbatim>\<open>s.lower()\<close>\<close>

definition py_lower :: "string \<Rightarrow> string" where
  "py_lower s = map lower_char s"

text \<open>\<^verbatim>\<open>c.isspace()\<close>: tab, line feed, vertical tab, form feed, carriage return,
  the four separators 28 to 31, the space, the next-line character 133 and the
  no-break space 160.\<close>

definition is_space :: "char \<Rightarrow> bool" where
  "is_space c =
     (let n = (of_char c :: nat)
      in (9 \<le> n \<and> n \<le> 13) \<or> (28 \<le> n \<and> n \<le> 32) \<or> n = 133 \<or> n = 160)"

text \<open>\<^verbatim>\<open>s.split()\<close> with no separator: the maximal runs of non-whitespace
  characters, in order; \<open>cur\<close> is the token being read.\<close>

fun split_acc :: "string \<Rightarrow> string \<Rightarrow> string list" where
  "split_acc cur [] = (if cur = [] then [] else [cur])"
| "split_acc cur (c # cs) =
     (if is_space c
      then (if cur = [] then split_acc [] cs else cur # split_acc [] cs)
      else split_acc (cur @ [c]) cs)"

definition py_split :: "string \<Rightarrow> string list" where
  "py_split s = split_acc [] s"

text \<open>\<^verbatim>\<open>s.strip()\<close>\<close>

definition py_strip :: "string \<Rightarrow> string" where
  "py_strip s = rev (dropWhile is_space (rev (dropWhile is_space s)))"

text \<open>\<^verbatim>\<open>sep.join(parts)\<close>\<close>

fun py_join :: "string \<Rightarrow> string list \<Rightarrow> string" where
  "py_join sep [] = []"
| "py_join sep [p] = p"
| "py_join sep (p # q # ps) = p @ sep @ py_join sep (q # ps)"

text \<open>\<^verbatim>\<open>sub in text\<close>\<close>

fun py_in :: "string \<Rightarrow> string \<Rightarrow> bool" where
  "py_in sub [] = (sub = [])"
| "py_in sub (c # cs) = (prefix sub (c # cs) \<or> py_in sub cs)"

text \<open>\<^verbatim>\<open>text.count(sub)\<close>: the number of non-overlapping occurrences, found from
  the left; the empty string occurs between any two characters and at both ends.\<close>

function count_from :: "string \<Rightarrow> string \<Rightarrow> nat" where
  "count_from sub text =
     (if sub = [] \<or> text = [] then 0
      else if prefix sub text then Suc (count_from sub (drop (length sub) text))
      else count_from sub (tl text))"
  by pat_completeness auto
termination
  by (relation "measure (\<lambda>(sub, text). length text)") auto

declare count_from.simps [simp del]

definition py_count :: "string \<Rightarrow> string \<Rightarrow> nat" where
  "py_count text sub = (if sub = [] then Suc (length text) else count_from sub text)"

text \<open>\<^verbatim>\<open>text.replace(old, new)\<close>: every non-overlapping occurrence, from the left.\<close>

function replace_from :: "string \<Rightarrow> string \<Rightarrow> string \<Rightarrow> string" where
  "replace_from old new text =
     (if old = [] \<or> text = [] then text
      else if prefix old text then new @ replace_from old new (drop (length old) text)
      else hd text # replace_from old new (tl text))"
  by pat_completeness auto
termination
  by (relation "measure (\<lambda>(old, new, text). length text)") auto

declare replace_from.simps [simp del]

definition py_replace :: "string \<Rightarrow> string \<Rightarrow> string \<Rightarrow> string" where
  "py_replace text old new =
     (if old = [] then new @ concat (map (\<lambda>c. c # new) text)
      else replace_from old new text)"

text \<open>\<^verbatim>\<open>xs[:k]\<close> for an integer \<open>k\<close>: a negative \<open>k\<close> counts from the end.\<close>

definition py_take :: "int \<Rightarrow> 'a list \<Rightarrow> 'a list" where
  "py_take k xs = (if 0 \<le> k then take (nat k) xs else take (length xs - nat (- k)) xs)"

text \<open>\<^verbatim>\<open>sorted(xs, key=f, reverse=True)\<close>: descending by key, and stable (elements
  with equal keys keep their order in \<open>xs\<close>).\<close>

fun insort_desc :: "('a \<Rightarrow> 'k::linorder) \<Rightarrow> 'a \<Rightarrow> 'a list \<Rightarrow> 'a list" where
  "insort_desc f x [] = [x]"
| "insort_desc f x (y # ys) =
     (if f y \<le> f x then x # y # ys else y # insort_desc f x ys)"

definition sorted_desc :: "('a \<Rightarrow> 'k::linorder) \<Rightarrow> 'a list \<Rightarrow> 'a list" where
  "sorted_desc f xs = foldr (insort_desc f) xs []"

section \<open>The commit store\<close>

text \<open>
  A commit of \<^verbatim>\<open>analysis_data['commits_data']\<close> is a dictionary that the engine
  reads only through \<^verbatim>\<open>commit.get(key, default)\<close>, with one default per key
  (\<^verbatim>\<open>''\<close> for the strings, \<^verbatim>\<open>0\<close> for the counts, \<^verbatim>\<open>[]\<close> for the file
  list). A missing key is therefore represented by its default. The keys that no
  search reads and no result carries on its own (\<^verbatim>\<open>dmm_unit_complexity\<close>,
  \<^verbatim>\<open>dmm_unit_interfacing\<close>, and \<^verbatim>\<open>old_path\<close> and \<^verbatim>\<open>new_path\<close> of a file
  change) are left out.
\<close>

record file_change =
  filename :: string
  change_type :: string
  added_lines :: int
  deleted_lines :: int

record commit =
  hash :: string
  author :: string
  author_email :: string
  date :: string
  message :: string
  insertions :: int
  deletions :: int
  files_modified :: int
  file_changes :: "file_change list"

text \<open>The entry that \<^verbatim>\<open>create_embeddings_index\<close> stores per embedded commit.\<close>

record metadata =
  m_hash :: string
  m_author :: string
  m_date :: string
  m_message :: string
  m_files_modified :: int

text \<open>The result dictionaries, one shape per search.\<close>

record keyword_hit =
  k_hash :: string
  k_author :: string
  k_date :: string
  k_message :: string
  k_files_modified :: int
  keyword_score :: nat
  k_file_changes :: "file_change list"

record author_hit =
  a_hash :: string
  a_author :: string
  a_author_email :: string
  a_date :: string
  a_message :: string
  a_files_modified :: int
  a_insertions :: int
  a_deletions :: int

record file_hit =
  f_hash :: string
  f_author :: string
  f_date :: string
  f_message :: string
  matching_files :: "file_change list"
  total_files_modified :: int

record time_hit =
  t_hash :: string
  t_author :: string
  t_date :: string
  t_message :: string
  t_files_modified :: int
  t_insertions :: int
  t_deletions :: int

section \<open>Lexical and attribute search\<close>

text \<open>The text a keyword is looked up in: the message, a space, and the file names
  joined by spaces, lower-cased.\<close>

definition commit_text :: "commit \<Rightarrow> string" where
  "commit_text c =
     py_lower (message c @ '' '' @ py_join '' '' (map filename (file_changes c)))"

text \<open>The inner loop of \<^verbatim>\<open>keyword_search\<close> over the query's keywords.\<close>

definition score_of :: "string list \<Rightarrow> string \<Rightarrow> nat" where
  "score_of keywords text =
     fold (\<lambda>keyword score.
             if py_in keyword text then score + py_count text keyword else score)
          keywords 0"

definition query_keywords :: "string \<Rightarrow> string list" where
  "query_keywords query = py_split (py_lower query)"

definition keyword_hit_of :: "commit \<Rightarrow> nat \<Rightarrow> keyword_hit" where
  "keyword_hit_of c score =
     \<lparr> k_hash = hash c, k_author = author c, k_date = date c, k_message = message c,
       k_files_modified = files_modified c, keyword_score = score,
       k_file_changes = take 3 (file_changes c) \<rparr>"

text \<open>The outer loop: one hit per commit whose score is positive, in store order.\<close>

fun keyword_hits :: "string list \<Rightarrow> commit list \<Rightarrow> keyword_hit list" where
  "keyword_hits keywords [] = []"
| "keyword_hits keywords (c # cs) =
     (let score = score_of keywords (commit_text c)
      in if 0 < score then keyword_hit_of c score # keyword_hits keywords cs
         else keyword_hits keywords cs)"

text \<open>\<^verbatim>\<open>QueryEngine.keyword_search\<close> on the list
  \<^verbatim>\<open>analysis_data.get('commits_data')\<close>.\<close>

definition keyword_search_on :: "commit list \<Rightarrow> string \<Rightarrow> int \<Rightarrow> keyword_hit list" where
  "keyword_search_on commits query top_k =
     (if commits = [] then []
      else py_take top_k (sorted_desc keyword_score (keyword_hits (query_keywords query) commits)))"

definition author_hit_of :: "commit \<Rightarrow> author_hit" where
  "author_hit_of c =
     \<lparr> a_hash = hash c, a_author = author c, a_author_email = author_email c,
       a_date = date c, a_message = message c, a_files_modified = files_modified c,
       a_insertions = insertions c, a_deletions = deletions c \<rparr>"

text \<open>\<^verbatim>\<open>QueryEngine.author_search\<close>\<close>

definition author_search_on :: "commit list \<Rightarrow> string \<Rightarrow> author_hit list" where
  "author_search_on commits query =
     (if commits = [] then []
      else let query_lower = py_lower query
           in sorted_desc a_date
                (map author_hit_of
                   (filter (\<lambda>c. py_in query_lower (py_lower (author c))
                                \<or> py_in query_lower (py_lower (author_email c)))
                      commits)))"

definition matching_files_of :: "string \<Rightarrow> commit \<Rightarrow> file_change list" where
  "matching_files_of query_lower c =
     filter (\<lambda>fc. py_in query_lower (py_lower (filename fc))) (file_changes c)"

definition file_hit_of :: "string \<Rightarrow> commit \<Rightarrow> file_hit" where
  "file_hit_of query_lower c =
     \<lparr> f_hash = hash c, f_author = author c, f_date = date c, f_message = message c,
       matching_files = matching_files_of query_lower c,
       total_files_modified = files_modified c \<rparr>"

text \<open>\<^verbatim>\<open>QueryEngine.file_search\<close>\<close>

definition file_search_on :: "commit list \<Rightarrow> string \<Rightarrow> file_hit list" where
  "file_search_on commits query =
     (if commits = [] then []
      else let query_lower = py_lower query
           in sorted_desc f_date
                (map (file_hit_of query_lower)
                   (filter (\<lambda>c. matching_files_of query_lower c \<noteq> []) commits)))"

definition time_hit_of :: "commit \<Rightarrow> time_hit" where
  "time_hit_of c =
     \<lparr> t_hash = hash c, t_author = author c, t_date = date c, t_message = message c,
       t_files_modified = files_modified c, t_insertions = insertions c,
       t_deletions = deletions c \<rparr>"

text \<open>The test \<^verbatim>\<open>start_date <= commit_date <= end_date\<close> of \<^verbatim>\<open>time_range_search\<close>.\<close>

definition in_range :: "string \<Rightarrow> string \<Rightarrow> commit \<Rightarrow> bool" where
  "in_range start_date end_date c = (start_date \<le> date c \<and> date c \<le> end_date)"

text \<open>\<^verbatim>\<open>QueryEngine.time_range_search\<close>\<close>

definition time_range_search_on :: "commit list \<Rightarrow> string \<Rightarrow> string \<Rightarrow> time_hit list" where
  "time_range_search_on commits start_date end_date =
     (if commits = [] then []
      else sorted_desc t_date
             (map time_hit_of (filter (in_range start_date end_date) commits)))"

section \<open>The engine and its collaborators\<close>

text \<open>An exception is kept as its message, \<^verbatim>\<open>str(e)\<close>.\<close>

type_synonym exn = string

text \<open>The analysis dictionary read from \<^verbatim>\<open><repo_id>_analysis.json\<close>. The engine
  reads \<^verbatim>\<open>status\<close> with the default \<^verbatim>\<open>'unknown'\<close>, so its absence is kept;
  the two nested dictionaries are passed through unread, as key and value pairs. \<open>'c\<close>
  is the type of the commits: with their embeddings while the repository is analysed,
  without them in the file and in the engine.\<close>

record 'c analysis =
  repo_id :: string
  repo_url :: string
  analysis_timestamp :: string
  status :: "string option"
  structure_info :: "(string \<times> string) list"
  insights :: "(string \<times> string) list"
  commits_data :: "'c list"

text \<open>The state of a \<^verbatim>\<open>QueryEngine\<close>. \<open>'m\<close> is the sentence-transformer model and
  \<open>'i\<close> the FAISS index; \<open>None\<close> is Python's \<^verbatim>\<open>None\<close>, and for \<open>analysis_data\<close>
  the empty dictionary the constructor puts there.\<close>

record ('m, 'i) engine =
  embeddings_model :: "'m option"
  embeddings_index :: "'i option"
  commit_metadata :: "metadata list"
  analysis_data :: "commit analysis option"

definition init_engine :: "('m, 'i) engine" where
  "init_engine =
     \<lparr> embeddings_model = None, embeddings_index = None, commit_metadata = [],
       analysis_data = None \<rparr>"

text \<open>The three files of one \<^verbatim>\<open>repo_id\<close> under \<^verbatim>\<open>analysis_data/\<close>. \<open>None\<close>: the
  file does not exist; \<open>Some (Inl x)\<close>: reading it raises \<open>x\<close>; \<open>Some (Inr v)\<close>: it
  reads as \<open>v\<close> (an analysis file holding \<^verbatim>\<open>{}\<close> reads as \<open>None\<close>).\<close>

record 'i files =
  analysis_file :: "(exn + commit analysis option) option"
  index_file :: "(exn + 'i) option"
  metadata_file :: "(exn + metadata list) option"

text \<open>
  What the engine calls and does not define: the file system, the constructor
  \<^verbatim>\<open>SentenceTransformer('all-MiniLM-L6-v2')\<close>, the clock, and \<open>knn\<close>, which stands
  for lines 90 to 95 of \<^verbatim>\<open>semantic_search\<close> (encode the query, normalise, search the
  index for \<open>top_k\<close> neighbours): it raises, or returns the pairs of
  \<^verbatim>\<open>similarities[0]\<close> and \<^verbatim>\<open>indices[0]\<close>, where FAISS pads with the index -1.
  \<open>'s\<close> is the type of similarity scores.
\<close>

record ('m, 'i, 's) world =
  disk :: "string \<Rightarrow> 'i files"
  new_model :: "exn + 'm"
  now :: string
  knn :: "'m \<Rightarrow> 'i \<Rightarrow> string \<Rightarrow> int \<Rightarrow> exn + ('s \<times> int) list"

text \<open>\<^verbatim>\<open>QueryEngine.initialize_model\<close>: re-raises what the constructor raises.\<close>

definition initialize_model ::
  "('m, 'i, 's) world \<Rightarrow> ('m, 'i) engine \<Rightarrow> exn + ('m, 'i) engine" where
  "initialize_model w e =
     (case new_model w of
        Inl x \<Rightarrow> Inl x
      | Inr m \<Rightarrow> Inr (e\<lparr>embeddings_model := Some m\<rparr>))"

text \<open>\<^verbatim>\<open>QueryEngine.load_analysis_data\<close>: the returned flag, and the engine as the
  assignments made before the return (or before the exception) leave it.\<close>

definition load_analysis_data ::
  "('m, 'i, 's) world \<Rightarrow> ('m, 'i) engine \<Rightarrow> string \<Rightarrow> bool \<times> ('m, 'i) engine" where
  "load_analysis_data w e rid =
     (case analysis_file (disk w rid) of
        None \<Rightarrow> (False, e)
      | Some (Inl x) \<Rightarrow> (False, e)
      | Some (Inr a) \<Rightarrow>
          (let e1 = e\<lparr>analysis_data := a\<rparr> in
           case index_file (disk w rid) of
             Some (Inl x) \<Rightarrow> (False, e1)
           | ixf \<Rightarrow>
               (let e2 = (case ixf of Some (Inr ix) \<Rightarrow> e1\<lparr>embeddings_index := Some ix\<rparr>
                                    | _ \<Rightarrow> e1)
                in case metadata_file (disk w rid) of
                     Some (Inl x) \<Rightarrow> (False, e2)
                   | Some (Inr md) \<Rightarrow> (True, e2\<lparr>commit_metadata := md\<rparr>)
                   | None \<Rightarrow> (True, e2))))"

text \<open>\<^verbatim>\<open>self.analysis_data.get('commits_data')\<close>; the searches return at once when
  it is missing or empty.\<close>

definition commits_of :: "('m, 'i) engine \<Rightarrow> commit list" where
  "commits_of e = (case analysis_data e of None \<Rightarrow> [] | Some a \<Rightarrow> commits_data a)"

definition keyword_search :: "('m, 'i) engine \<Rightarrow> string \<Rightarrow> int \<Rightarrow> keyword_hit list" where
  "keyword_search e query top_k = keyword_search_on (commits_of e) query top_k"

definition author_search :: "('m, 'i) engine \<Rightarrow> string \<Rightarrow> author_hit list" where
  "author_search e query = author_search_on (commits_of e) query"

definition file_search :: "('m, 'i) engine \<Rightarrow> string \<Rightarrow> file_hit list" where
  "file_search e query = file_search_on (commits_of e) query"

definition time_range_search :: "('m, 'i) engine \<Rightarrow> string \<Rightarrow> string \<Rightarrow> time_hit list" where
  "time_range_search e start_date end_date =
     time_range_search_on (commits_of e) start_date end_date"

subsection \<open>Semantic search\<close>

text \<open>A semantic result: a copy of the metadata entry with two more keys.\<close>

record 's semantic_hit = metadata +
  similarity_score :: 's
  rank :: nat

text \<open>The loop \<^verbatim>\<open>for i, idx in enumerate(indices[0])\<close>; \<open>i\<close> is the position.\<close>

fun semantic_hits :: "metadata list \<Rightarrow> nat \<Rightarrow> ('s \<times> int) list \<Rightarrow> 's semantic_hit list" where
  "semantic_hits md i [] = []"
| "semantic_hits md i ((sim, idx) # rest) =
     (if 0 \<le> idx \<and> idx < int (length md)
      then metadata.extend (md ! nat idx)
             (semantic_hit.fields sim (i + 1)) # semantic_hits md (i + 1) rest
      else semantic_hits md (i + 1) rest)"

text \<open>The body of the \<^verbatim>\<open>try\<close> block of \<^verbatim>\<open>semantic_search\<close>.\<close>

definition semantic_search_try ::
  "('m, 'i, 's) world \<Rightarrow> ('m, 'i) engine \<Rightarrow> string \<Rightarrow> int \<Rightarrow> exn + 's semantic_hit list" where
  "semantic_search_try w e query top_k =
     (case (embeddings_model e, embeddings_index e) of
        (Some m, Some ix) \<Rightarrow>
          (case knn w m ix query top_k of
             Inl x \<Rightarrow> Inl x
           | Inr found \<Rightarrow> Inr (semantic_hits (commit_metadata e) 0 found))
      | _ \<Rightarrow> Inr [])"

text \<open>\<^verbatim>\<open>QueryEngine.semantic_search\<close>: any exception becomes the empty list.\<close>

definition semantic_search ::
  "('m, 'i, 's) world \<Rightarrow> ('m, 'i) engine \<Rightarrow> string \<Rightarrow> int \<Rightarrow> 's semantic_hit list" where
  "semantic_search w e query top_k =
     (case semantic_search_try w e query top_k of Inl x \<Rightarrow> [] | Inr hits \<Rightarrow> hits)"

subsection \<open>Repository summary\<close>

record summary =
  s_repo_id :: string
  s_repo_url :: string
  s_analysis_timestamp :: string
  s_status :: string
  s_structure_info :: "(string \<times> string) list"
  s_insights :: "(string \<times> string) list"
  semantic_search_available :: bool
  total_commits_indexed :: nat
  search_types :: "string list"

text \<open>\<^verbatim>\<open>QueryEngine.get_repository_summary\<close>; \<open>None\<close> is the empty dictionary.\<close>

definition get_repository_summary :: "('m, 'i) engine \<Rightarrow> summary option" where
  "get_repository_summary e =
     (case analysis_data e of
        None \<Rightarrow> None
      | Some a \<Rightarrow>
          Some \<lparr> s_repo_id = repo_id a, s_repo_url = repo_url a,
                 s_analysis_timestamp = analysis_timestamp a,
                 s_status = (case status a of None \<Rightarrow> ''unknown'' | Some st \<Rightarrow> st),
                 s_structure_info = structure_info a, s_insights = insights a,
                 semantic_search_available = (embeddings_index e \<noteq> None),
                 total_commits_indexed = length (commit_metadata e),
                 search_types =
                   [''semantic'', ''keyword'', ''author'', ''file'', ''time_range''] \<rparr>)"

section \<open>The query router\<close>

text \<open>An entry of \<^verbatim>\<open>results['results']\<close>.\<close>

datatype 's result =
    Semantic "'s semantic_hit"
  | Keyword keyword_hit
  | Author author_hit
  | File file_hit
  | TimeRange time_hit

text \<open>\<^verbatim>\<open>result.get('hash', '')\<close>\<close>

fun result_hash :: "'s result \<Rightarrow> string" where
  "result_hash (Semantic h) = m_hash h"
| "result_hash (Keyword h) = k_hash h"
| "result_hash (Author h) = a_hash h"
| "result_hash (File h) = f_hash h"
| "result_hash (TimeRange h) = t_hash h"

text \<open>The response dictionary of a query that was dispatched. \<open>r_summary\<close> is
  \<open>None\<close> when the key is absent and \<open>Some None\<close> when it holds the empty
  dictionary; \<open>r_suggestions\<close> is \<open>None\<close> when the key is absent.\<close>

record 's answer =
  r_query :: string
  r_repo_id :: string
  r_search_type :: string
  r_timestamp :: string
  r_results :: "'s result list"
  r_summary :: "summary option option"
  r_suggestions :: "string list option"
  r_total_results :: nat
  r_total_commits_available :: nat
  r_analysis_date :: string
  r_repo_url :: string

text \<open>The three dictionaries \<^verbatim>\<open>process_query\<close> can return: the analysis was not
  found (error text, suggestions); an exception reached the outer handler (error text,
  query, repository id, timestamp); or the query was dispatched.\<close>

datatype 's response =
    NotFound string "string list"
  | Failed exn string string string
  | Answer "'s answer"

definition date_terms :: "string list" where
  "date_terms =
     [''before'', ''after'', ''during'', ''2020'', ''2021'', ''2022'', ''2023'', ''2024'']"

text \<open>The chain under \<^verbatim>\<open>if search_type == 'auto'\<close>.\<close>

definition auto_detect :: "string \<Rightarrow> string" where
  "auto_detect query_lower =
     (if py_in ''author'' query_lower \<or> py_in ''who'' query_lower then ''author''
      else if py_in ''file'' query_lower \<or> py_in ''.py'' query_lower
              \<or> py_in ''.js'' query_lower then ''file''
      else if list_ex (\<lambda>date_term. py_in date_term query_lower) date_terms
      then ''time_range''
      else ''semantic'')"

text \<open>The loop that removes the results without a hash and the repeated hashes.\<close>

fun unique_loop :: "string set \<Rightarrow> 's result list \<Rightarrow> 's result list" where
  "unique_loop seen_hashes [] = []"
| "unique_loop seen_hashes (r # rs) =
     (let result_hash = result_hash r
      in if result_hash \<noteq> [] \<and> result_hash \<notin> seen_hashes
         then r # unique_loop (insert result_hash seen_hashes) rs
         else unique_loop seen_hashes rs)"

text \<open>The last branch of the dispatch.\<close>

definition combined_results ::
  "('m, 'i, 's) world \<Rightarrow> ('m, 'i) engine \<Rightarrow> string \<Rightarrow> 's result list" where
  "combined_results w e query =
     (let semantic_results = map Semantic (semantic_search w e query 5);
          keyword_results = map Keyword (keyword_search e query 5);
          all_results = semantic_results @ keyword_results
      in take 10 (unique_loop {} all_results))"

text \<open>The dispatch \<^verbatim>\<open>if search_type == 'semantic': ... else: ...\<close>: the search type
  written to the response, the results, and the summary key.\<close>

definition execute ::
  "('m, 'i, 's) world \<Rightarrow> ('m, 'i) engine \<Rightarrow> string \<Rightarrow> string
     \<Rightarrow> string \<times> 's result list \<times> summary option option" where
  "execute w e query search_type =
     (if search_type = ''semantic''
      then (''semantic'', map Semantic (semantic_search w e query 10), None)
      else if search_type = ''keyword''
      then (''keyword'', map Keyword (keyword_search e query 10), None)
      else if search_type = ''author''
      then (let author_query =
                  py_strip (py_replace (py_replace (py_lower query) ''author'' []) ''who'' [])
            in (''author'', map Author (author_search e author_query), None))
      else if search_type = ''file''
      then (let file_query =
                  py_strip (py_replace (py_replace (py_lower query) ''file'' []) ''modified'' [])
            in (''file'', map File (file_search e file_query), None))
      else if search_type = ''summary''
      then (''summary'', [], Some (get_repository_summary e))
      else (''combined'', combined_results w e query, None))"

definition no_results_suggestions :: "string list" where
  "no_results_suggestions =
     [''Try a broader search term'',
      ''Use specific keywords from commit messages'',
      ''Search by author name or file extension'',
      ''Use '' @ [CHR 0x22] @ ''summary'' @ [CHR 0x22] @ '' to get repository overview'']"

text \<open>\<^verbatim>\<open>process_query\<close> from the line \<^verbatim>\<open>results = {...}\<close> on, for an engine that
  is loaded and has its model.\<close>

definition route ::
  "('m, 'i, 's) world \<Rightarrow> ('m, 'i) engine \<Rightarrow> string \<Rightarrow> string \<Rightarrow> string \<Rightarrow> 's answer" where
  "route w e query rid search_type =
     (let query_lower = py_lower query;
          search_type1 = (if search_type = ''auto'' then auto_detect query_lower
                          else search_type);
          (search_type2, results, summ) = execute w e query search_type1
      in \<lparr> r_query = query, r_repo_id = rid, r_search_type = search_type2,
           r_timestamp = now w, r_results = results, r_summary = summ,
           r_suggestions =
             (if results = [] \<and> (summ = None \<or> summ = Some None)
              then Some no_results_suggestions else None),
           r_total_results = length results,
           r_total_commits_available = length (commits_of e),
           r_analysis_date =
             (case analysis_data e of None \<Rightarrow> [] | Some a \<Rightarrow> analysis_timestamp a),
           r_repo_url = (case analysis_data e of None \<Rightarrow> [] | Some a \<Rightarrow> repo_url a) \<rparr>)"

text \<open>\<^verbatim>\<open>QueryEngine.process_query\<close>: the response and the engine afterwards.\<close>

definition process_query ::
  "('m, 'i, 's) world \<Rightarrow> ('m, 'i) engine \<Rightarrow> string \<Rightarrow> string \<Rightarrow> string
     \<Rightarrow> 's response \<times> ('m, 'i) engine" where
  "process_query w e query rid search_type =
     (let (loaded, e1) = (if analysis_data e = None then load_analysis_data w e rid
                          else (True, e))
      in if \<not> loaded
         then (NotFound (''Repository analysis not found for ID: '' @ rid)
                 [''Please analyze the repository first'',
                  ''Check if the repository ID is correct''], e1)
         else (case (if embeddings_model e1 = None then initialize_model w e1 else Inr e1) of
                 Inl x \<Rightarrow> (Failed x query rid (now w), e1)
               | Inr e2 \<Rightarrow> (Answer (route w e2 query rid search_type), e2)))"

section \<open>Building and saving the index\<close>

text \<open>
  \<^verbatim>\<open>src/python/analyze_repo.py\<close>: a mined commit carries the key
  \<^verbatim>\<open>embedding\<close>, a list of floats, \<^verbatim>\<open>None\<close> when the model failed on it and
  absent when there was no model; \<^verbatim>\<open>commit.get('embedding')\<close> is false for the
  last two and for the empty list. \<open>'f\<close> is the type of a vector component.
\<close>

record 'f mined_commit = commit +
  embedding :: "'f list option"

text \<open>The attributes of \<^verbatim>\<open>CodebaseTimeMachine\<close> that the index uses.\<close>

record ('m, 'i) time_machine =
  tm_embeddings_model :: "'m option"
  tm_embeddings_index :: "'i option"
  tm_commit_metadata :: "metadata list"

definition init_time_machine :: "('m, 'i) time_machine" where
  "init_time_machine =
     \<lparr> tm_embeddings_model = None, tm_embeddings_index = None, tm_commit_metadata = [] \<rparr>"

definition metadata_of :: "'f mined_commit \<Rightarrow> metadata" where
  "metadata_of c =
     \<lparr> m_hash = hash c, m_author = author c, m_date = date c, m_message = message c,
       m_files_modified = files_modified c \<rparr>"

text \<open>The first loop of \<^verbatim>\<open>create_embeddings_index\<close>: the two parallel lists.\<close>

fun collect_embeddings :: "'f mined_commit list \<Rightarrow> 'f list list \<times> metadata list" where
  "collect_embeddings [] = ([], [])"
| "collect_embeddings (c # cs) =
     (let (embeddings, metadata) = collect_embeddings cs
      in case embedding c of
           None \<Rightarrow> (embeddings, metadata)
         | Some v \<Rightarrow> (if v = [] then (embeddings, metadata)
                     else (v # embeddings, metadata_of c # metadata)))"

text \<open>\<^verbatim>\<open>CodebaseTimeMachine.create_embeddings_index\<close>. \<open>build\<close> stands for the
  construction of the normalised inner-product index from the array of vectors, which
  raises when the array is ragged. The result is the returned index and the state.\<close>

definition create_embeddings_index ::
  "('f list list \<Rightarrow> exn + 'i) \<Rightarrow> ('m, 'i) time_machine \<Rightarrow> 'f mined_commit list
     \<Rightarrow> 'i option \<times> ('m, 'i) time_machine" where
  "create_embeddings_index build tm commits =
     (let (embeddings, metadata) = collect_embeddings commits
      in if embeddings = [] then (None, tm)
         else (case build embeddings of
                 Inl x \<Rightarrow> (None, tm)
               | Inr index \<Rightarrow>
                   (Some index,
                    tm\<lparr>tm_embeddings_index := Some index, tm_commit_metadata := metadata\<rparr>)))"

text \<open>The copy of the analysis without the embeddings, as written to the JSON file.\<close>

definition clean_data :: "'f mined_commit analysis \<Rightarrow> commit analysis" where
  "clean_data a =
     \<lparr> repo_id = repo_id a, repo_url = repo_url a,
       analysis_timestamp = analysis_timestamp a, status = status a,
       structure_info = structure_info a, insights = insights a,
       commits_data = map commit.truncate (commits_data a) \<rparr>"

text \<open>\<^verbatim>\<open>CodebaseTimeMachine.save_analysis_results\<close> on a file system that accepts
  the writes: the analysis file always, the index and the metadata files only when
  there is an index. A file that is not written stays as it was.\<close>

definition save_analysis_results ::
  "('m, 'i) time_machine \<Rightarrow> string \<Rightarrow> 'f mined_commit analysis \<Rightarrow> (string \<Rightarrow> 'i files)
     \<Rightarrow> (string \<Rightarrow> 'i files)" where
  "save_analysis_results tm rid a d =
     (let f1 = (d rid)\<lparr>analysis_file := Some (Inr (Some (clean_data a)))\<rparr>;
          f2 = (case tm_embeddings_index tm of
                  None \<Rightarrow> f1
                | Some index \<Rightarrow>
                    f1\<lparr>index_file := Some (Inr index),
                       metadata_file := Some (Inr (tm_commit_metadata tm))\<rparr>)
      in d(rid := f2))"

section \<open>The semantic results as objects\<close>

text \<open>
  \<^verbatim>\<open>semantic_search\<close> is the one search that writes into a dictionary: it adds
  the keys \<^verbatim>\<open>similarity_score\<close> and \<^verbatim>\<open>rank\<close> to
  \<^verbatim>\<open>self.commit_metadata[idx].copy()\<close>. Here the dictionaries are objects in a
  store, \<open>commit_metadata\<close> is a list of references into it, and the loop runs on the
  store, so that what the writes reach is visible.
\<close>

datatype 's pyval = PyStr string | PyInt int | PyNat nat | PyFloat 's

type_synonym 's pydict = "string \<rightharpoonup> 's pyval"

text \<open>The store: the object at reference \<open>r\<close> is \<open>objs ! r\<close>; a new object is appended.\<close>

type_synonym 's objects = "'s pydict list"

text \<open>\<^verbatim>\<open>d.copy()\<close>: a new object with the same items.\<close>

definition dict_copy :: "nat \<Rightarrow> 's objects \<Rightarrow> nat \<times> 's objects" where
  "dict_copy r objs = (length objs, objs @ [objs ! r])"

text \<open>\<^verbatim>\<open>d[key] = v\<close>\<close>

definition dict_set :: "nat \<Rightarrow> string \<Rightarrow> 's pyval \<Rightarrow> 's objects \<Rightarrow> 's objects" where
  "dict_set r key v objs = objs[r := (objs ! r)(key \<mapsto> v)]"

text \<open>The loop of \<^verbatim>\<open>semantic_search\<close> on the store: the references of the results
  and the store afterwards. The references in \<open>md\<close> are those of
  \<^verbatim>\<open>self.commit_metadata\<close>.\<close>

fun semantic_loop ::
  "nat list \<Rightarrow> nat \<Rightarrow> ('s \<times> int) list \<Rightarrow> 's objects \<Rightarrow> nat list \<times> 's objects" where
  "semantic_loop md i [] objs = ([], objs)"
| "semantic_loop md i ((sim, idx) # rest) objs =
     (if 0 \<le> idx \<and> idx < int (length md)
      then (let (result, objs1) = dict_copy (md ! nat idx) objs;
                objs2 = dict_set result ''similarity_score'' (PyFloat sim) objs1;
                objs3 = dict_set result ''rank'' (PyNat (i + 1)) objs2;
                (results, objs4) = semantic_loop md (i + 1) rest objs3
            in (result # results, objs4))
      else semantic_loop md (i + 1) rest objs)"

text \<open>The dictionary of a metadata entry, and of a semantic result.\<close>

definition metadata_dict :: "'z metadata_scheme \<Rightarrow> 's pydict" where
  "metadata_dict m =
     [''hash'' \<mapsto> PyStr (m_hash m), ''author'' \<mapsto> PyStr (m_author m),
      ''date'' \<mapsto> PyStr (m_date m), ''message'' \<mapsto> PyStr (m_message m),
      ''files_modified'' \<mapsto> PyInt (m_files_modified m)]"

definition semantic_hit_dict :: "'s semantic_hit \<Rightarrow> 's pydict" where
  "semantic_hit_dict h =
     (metadata_dict h)(''similarity_score'' \<mapsto> PyFloat (similarity_score h),
                       ''rank'' \<mapsto> PyNat (rank h))"

section \<open>The keyword tokens as the specification words them\<close>

text \<open>The specification's tokens: split on whitespace, lower-cased, and the tokens of
  length at most 3 discarded. \<open>query_keywords\<close> above is what the code computes.\<close>

definition spec_keywords :: "string \<Rightarrow> string list" where
  "spec_keywords query = filter (\<lambda>t. \<not> length t \<le> 3) (py_split (py_lower query))"

section \<open>Deduplication as the specification words it\<close>

text \<open>Keep the first occurrence of each key, in order.\<close>

fun first_occurrences :: "('a \<Rightarrow> 'k) \<Rightarrow> 'a list \<Rightarrow> 'a list" where
  "first_occurrences key [] = []"
| "first_occurrences key (x # xs) =
     x # first_occurrences key (filter (\<lambda>y. key y \<noteq> key x) xs)"

section \<open>Example data\<close>

definition example_file :: "string \<Rightarrow> file_change" where
  "example_file name =
     \<lparr> filename = name, change_type = ''ModificationType.MODIFY'', added_lines = 1,
       deleted_lines = 0 \<rparr>"

definition example_commit :: "string \<Rightarrow> string \<Rightarrow> string \<Rightarrow> file_change list \<Rightarrow> commit" where
  "example_commit h d msg fcs =
     \<lparr> hash = h, author = ''Alice'', author_email = ''alice@example.org'', date = d,
       message = msg, insertions = 1, deletions = 0, files_modified = int (length fcs),
       file_changes = fcs \<rparr>"

definition example_analysis :: "commit list \<Rightarrow> commit analysis" where
  "example_analysis cs =
     \<lparr> repo_id = ''0123456789ab'', repo_url = ''https://example.org/repo.git'',
       analysis_timestamp = ''2024-06-01T00:00:00'', status = Some ''completed'',
       structure_info = [], insights = [], commits_data = cs \<rparr>"

text \<open>An engine that is loaded and has its model, and no index.\<close>

definition example_engine :: "commit list \<Rightarrow> (unit, unit) engine" where
  "example_engine cs =
     \<lparr> embeddings_model = Some (), embeddings_index = None, commit_metadata = [],
       analysis_data = Some (example_analysis cs) \<rparr>"

text \<open>The response of a dispatched query, when there is one.\<close>

definition answer_of :: "'s response \<Rightarrow> 's answer option" where
  "answer_of r = (case r of Answer a \<Rightarrow> Some a | _ \<Rightarrow> None)"

text \<open>A world with an empty disk, a model that loads, and an index search that finds
  nothing.\<close>

definition example_world :: "(unit, unit, int) world" where
  "example_world =
     \<lparr> disk = (\<lambda>rid. \<lparr> analysis_file = None, index_file = None, metadata_file = None \<rparr>),
       new_model = Inr (), now = ''2024-06-02T12:00:00'',
       knn = (\<lambda>m ix query top_k. Inr []) \<rparr>"

text \<open>A disk that holds the analysis file of a repository and neither of the two
  other files.\<close>

definition analysis_only_world :: "(unit, unit, int) world" where
  "analysis_only_world =
     example_world\<lparr>disk := (\<lambda>rid.
        \<lparr> analysis_file =
            Some (Inr (Some (example_analysis
              [example_commit ''c1'' ''2024-01-01'' ''fix bug'' []]))),
          index_file = None, metadata_file = None \<rparr>)\<rparr>"

text \<open>A disk whose three files disagree: three commits in the analysis, an index of two
  vectors (the index is represented by the number of its vectors), one metadata entry.\<close>

definition mismatched_world :: "(unit, nat, int) world" where
  "mismatched_world =
     \<lparr> disk = (\<lambda>rid.
        \<lparr> analysis_file =
            Some (Inr (Some (example_analysis
              [example_commit ''c1'' ''2024-01-01'' ''fix bug'' [],
               example_commit ''c2'' ''2024-01-02'' ''add docs'' [],
               example_commit ''c3'' ''2024-01-03'' ''release'' []]))),
          index_file = Some (Inr 2),
          metadata_file =
            Some (Inr [\<lparr> m_hash = ''zz'', m_author = ''Bob'', m_date = ''2023-05-05'',
                          m_message = ''other repository'', m_files_modified = 7 \<rparr>]) \<rparr>),
       new_model = Inr (), now = ''2024-06-02T12:00:00'',
       knn = (\<lambda>m ix query top_k. Inr []) \<rparr>"

text \<open>Mined commits and their analysis.\<close>

definition example_mined :: "string \<Rightarrow> string \<Rightarrow> int list option \<Rightarrow> int mined_commit" where
  "example_mined h msg emb =
     commit.extend (example_commit h ''2024-01-01'' msg []) (mined_commit.fields emb)"

definition example_mined_analysis :: "int mined_commit list \<Rightarrow> int mined_commit analysis" where
  "example_mined_analysis cs =
     \<lparr> repo_id = ''0123456789ab'', repo_url = ''https://example.org/repo.git'',
       analysis_timestamp = ''2024-06-01T00:00:00'', status = Some ''completed'',
       structure_info = [], insights = [], commits_data = cs \<rparr>"

definition example_metadata :: metadata where
  "example_metadata =
     \<lparr> m_hash = ''c1'', m_author = ''Alice'', m_date = ''2024-01-01'',
       m_message = ''fix bug'', m_files_modified = 0 \<rparr>"

text \<open>The disk of \<open>analysis_only_world\<close>, and a model that cannot be constructed.\<close>

definition broken_model_world :: "(unit, unit, int) world" where
  "broken_model_world = analysis_only_world\<lparr>new_model := Inl ''model cannot be loaded''\<rparr>"

text \<open>A disk that holds the index and the metadata of an earlier run, and an index search
  that finds the first vector.\<close>

definition stale_index_world :: "(unit, unit, int) world" where
  "stale_index_world =
     \<lparr> disk = (\<lambda>rid.
        \<lparr> analysis_file = None, index_file = Some (Inr ()),
          metadata_file = Some (Inr [example_metadata\<lparr>m_hash := ''zz''\<rparr>]) \<rparr>),
       new_model = Inr (), now = ''2024-06-02T12:00:00'',
       knn = (\<lambda>m ix query top_k. Inr [(9, 0)]) \<rparr>"

section \<open>Sorting, slicing and counting\<close>

lemma set_insort_desc: "set (insort_desc f x xs) = insert x (set xs)"
  by (induction xs) auto

lemma set_sorted_desc: "set (sorted_desc f xs) = set xs"
  by (induction xs) (simp_all add: sorted_desc_def set_insort_desc)

lemma mset_insort_desc: "mset (insort_desc f x xs) = add_mset x (mset xs)"
  by (induction xs) auto

lemma mset_sorted_desc: "mset (sorted_desc f xs) = mset xs"
  by (induction xs) (simp_all add: sorted_desc_def mset_insort_desc)

lemma descending_insort_desc:
  "sorted_wrt (\<lambda>a b. f b \<le> f a) xs \<Longrightarrow> sorted_wrt (\<lambda>a b. f b \<le> f a) (insort_desc f x xs)"
  by (induction xs) (auto simp: set_insort_desc)

lemma descending_sorted_desc: "sorted_wrt (\<lambda>a b. f b \<le> f a) (sorted_desc f xs)"
  by (induction xs) (simp_all add: sorted_desc_def descending_insort_desc)

lemma set_py_take: "set (py_take k xs) \<subseteq> set xs"
  by (auto simp: py_take_def dest: in_set_takeD)

lemma count_from_absent: "\<not> py_in sub tx \<Longrightarrow> count_from sub tx = 0"
proof (induction sub tx rule: count_from.induct)
  case (1 sub tx)
  show ?case
  proof (cases tx)
    case Nil
    then show ?thesis by (simp add: count_from.simps)
  next
    case (Cons c cs)
    with "1.prems" have np: "\<not> prefix sub tx" and nr: "\<not> py_in sub cs" by auto
    have ne: "sub \<noteq> []" using np by auto
    have "count_from sub (tl tx) = 0" using "1.IH"(2) np nr ne Cons by simp
    then show ?thesis using np ne Cons by (subst count_from.simps) simp
  qed
qed

lemma py_count_absent: "\<not> py_in sub tx \<Longrightarrow> py_count tx sub = 0"
  by (cases tx) (auto simp: py_count_def count_from_absent)

lemma fold_score:
  "fold (\<lambda>keyword score. if py_in keyword tx then score + py_count tx keyword else score) kws s
     = s + sum_list (map (py_count tx) kws)"
  by (induction kws arbitrary: s) (simp_all add: py_count_absent)

lemma score_of_sum: "score_of kws tx = sum_list (map (py_count tx) kws)"
  by (simp add: score_of_def fold_score)

lemma keyword_hits_filter:
  "keyword_hits kws cs =
     map (\<lambda>c. keyword_hit_of c (score_of kws (commit_text c)))
       (filter (\<lambda>c. 0 < score_of kws (commit_text c)) cs)"
  by (induction cs) (simp_all add: Let_def)


lemma split_acc_tokens:
  "\<forall>c \<in> set cur. \<not> is_space c \<Longrightarrow> t \<in> set (split_acc cur s)
     \<Longrightarrow> t \<noteq> [] \<and> (\<forall>c \<in> set t. \<not> is_space c)"
proof (induction cur s rule: split_acc.induct)
  case (1 cur)
  then show ?case by (cases "cur = []") simp_all
next
  case (2 cur c cs)
  show ?case
  proof (cases "is_space c")
    case sp: True
    show ?thesis
    proof (cases "cur = []")
      case True
      with sp "2.prems" have "t \<in> set (split_acc [] cs)" by simp
      with "2.IH"(1) sp True show ?thesis by simp
    next
      case False
      with sp "2.prems" have "t = cur \<or> t \<in> set (split_acc [] cs)" by simp
      then show ?thesis
      proof
        assume "t = cur"
        with False "2.prems"(1) show ?thesis by simp
      next
        assume "t \<in> set (split_acc [] cs)"
        with "2.IH"(2) sp False show ?thesis by simp
      qed
    qed
  next
    case False
    with "2.prems" have "t \<in> set (split_acc (cur @ [c]) cs)" by simp
    moreover have "\<forall>c' \<in> set (cur @ [c]). \<not> is_space c'" using False "2.prems"(1) by simp
    ultimately show ?thesis using "2.IH"(3) False by blast
  qed
qed

lemma py_split_tokens: "t \<in> set (py_split s) \<Longrightarrow> t \<noteq> [] \<and> (\<forall>c \<in> set t. \<not> is_space c)"
  using split_acc_tokens [of "[]" t s] by (simp add: py_split_def)

lemma is_space_lower_char: "is_space (lower_char c) = is_space c"
proof -
  have "of_char c < (256 :: nat)" by simp
  then show ?thesis
    by (auto simp: is_space_def lower_char_def Let_def)
qed

lemma split_acc_word:
  "\<forall>x \<in> set t. \<not> is_space x \<Longrightarrow> split_acc cur (t @ s) = split_acc (cur @ t) s"
  by (induction t arbitrary: cur) simp_all

lemma py_split_space: "is_space c \<Longrightarrow> py_split (c # s) = py_split s"
  by (simp add: py_split_def)

lemma py_split_word:
  assumes "t \<noteq> []" and "\<forall>x \<in> set t. \<not> is_space x"
  shows "py_split t = [t]" and "is_space c \<Longrightarrow> py_split (t @ c # s) = t # py_split s"
proof -
  from split_acc_word [OF assms(2), of "[]" "[]"] assms(1)
  show "py_split t = [t]" by (simp add: py_split_def)
  assume "is_space c"
  with split_acc_word [OF assms(2), of "[]" "c # s"] assms(1)
  show "py_split (t @ c # s) = t # py_split s" by (simp add: py_split_def)
qed

lemma py_split_join:
  "\<forall>w \<in> set ws. w \<noteq> [] \<and> (\<forall>x \<in> set w. \<not> is_space x)
     \<Longrightarrow> py_split (py_join '' '' ws) = ws"
proof (induction "'' ''" ws rule: py_join.induct)
  case 1
  show ?case by (simp add: py_split_def)
next
  case (2 p)
  then show ?case by (simp add: py_split_word(1))
next
  case (3 p q ps)
  have sp: "is_space (CHR '' '')" by (simp add: is_space_def)
  from 3 have p: "p \<noteq> []" "\<forall>x \<in> set p. \<not> is_space x" by simp_all
  from 3 have "py_split (py_join '' '' (q # ps)) = q # ps" by simp
  with py_split_word(2) [OF p sp, of "py_join '' '' (q # ps)"] show ?case by simp
qed

lemma py_lower_join:
  "py_lower (py_join sep ws) = py_join (py_lower sep) (map py_lower ws)"
  by (induction sep ws rule: py_join.induct) (simp_all add: py_lower_def)

lemma query_keywords_join:
  assumes "\<forall>w \<in> set ws. w \<noteq> [] \<and> (\<forall>x \<in> set w. \<not> is_space x)"
  shows "query_keywords (py_join '' '' ws) = map py_lower ws"
proof -
  have sp: "py_lower '' '' = '' ''" by (simp add: py_lower_def lower_char_def)
  have "\<forall>w \<in> set (map py_lower ws). w \<noteq> [] \<and> (\<forall>x \<in> set w. \<not> is_space x)"
    using assms by (auto simp: py_lower_def is_space_lower_char)
  from py_split_join [OF this] show ?thesis
    by (simp add: query_keywords_def py_lower_join sp)
qed


section \<open>Keyword search\<close>

text \<open>
  C3. On a store whose two commits have the messages "fix bug in parser" and
  "update readme" and no file names, the keyword search for "bug" with \<open>top_k = 10\<close>
  returns exactly the hit of the first commit, with score 1, and not the second commit.
  The other fields of the commits, of the analysis and of the engine are arbitrary.
\<close>

theorem keyword_scoring_example:
  "keyword_search
     (e\<lparr>analysis_data := Some (a\<lparr>commits_data :=
          [c1\<lparr>message := ''fix bug in parser'', file_changes := []\<rparr>,
           c2\<lparr>message := ''update readme'', file_changes := []\<rparr>]\<rparr>)\<rparr>) ''bug'' 10
   = [keyword_hit_of (c1\<lparr>message := ''fix bug in parser'', file_changes := []\<rparr>) 1]"
  by (simp add: keyword_search_def commits_of_def keyword_search_on_def query_keywords_def
      py_split_def py_lower_def lower_char_def is_space_def score_of_def commit_text_def
      py_count_def count_from.simps py_take_def sorted_desc_def)

theorem keyword_scoring_example_witness:
  "map keyword_score
     (keyword_search
        (example_engine [example_commit ''c1'' ''2024-01-01'' ''fix bug in parser'' [],
                         example_commit ''c2'' ''2024-01-02'' ''update readme'' []]) ''bug'' 10) = [1]
   \<and> map k_hash
     (keyword_search
        (example_engine [example_commit ''c1'' ''2024-01-01'' ''fix bug in parser'' [],
                         example_commit ''c2'' ''2024-01-02'' ''update readme'' []]) ''bug'' 10) = [''c1'']"
  using keyword_scoring_example [where e = "example_engine []" and a = "example_analysis []"
      and ?c1.0 = "example_commit ''c1'' ''2024-01-01'' [] []"
      and ?c2.0 = "example_commit ''c2'' ''2024-01-02'' [] []"]
  by (simp add: example_engine_def example_analysis_def example_commit_def keyword_hit_of_def)

text \<open>
  C10. Every hit of the keyword search is the hit of a commit of the store and carries
  the first three entries of that commit's \<open>file_changes\<close>, in their order, and so at
  most three entries, whatever the number of files of the commit.
\<close>

theorem keyword_hit_files:
  assumes "h \<in> set (keyword_search e query top_k)"
  shows "\<exists>c \<in> set (commits_of e).
           h = keyword_hit_of c (keyword_score h)
         \<and> k_file_changes h = take 3 (file_changes c)
         \<and> length (k_file_changes h) \<le> 3"
proof -
  define sc where "sc = (\<lambda>c. score_of (query_keywords query) (commit_text c))"
  from assms have "h \<in> set (py_take top_k (sorted_desc keyword_score
                        (keyword_hits (query_keywords query) (commits_of e))))"
    by (cases "commits_of e = []") (simp_all add: keyword_search_def keyword_search_on_def)
  then have "h \<in> set (sorted_desc keyword_score
                        (keyword_hits (query_keywords query) (commits_of e)))"
    by (rule subsetD [OF set_py_take])
  then have "h \<in> set (keyword_hits (query_keywords query) (commits_of e))"
    by (simp add: set_sorted_desc)
  then have "h \<in> (\<lambda>c. keyword_hit_of c (sc c)) ` set (commits_of e)"
    unfolding keyword_hits_filter sc_def by fastforce
  then obtain c where c: "c \<in> set (commits_of e)" and h: "h = keyword_hit_of c (sc c)"
    by blast
  have 1: "keyword_score h = sc c" unfolding h by (simp add: keyword_hit_of_def)
  have 2: "k_file_changes h = take 3 (file_changes c)" unfolding h by (simp add: keyword_hit_of_def)
  have 3: "h = keyword_hit_of c (keyword_score h)" unfolding 1 by (rule h)
  have 4: "length (k_file_changes h) \<le> 3" unfolding 2 by simp
  from c 2 3 4 show ?thesis by blast
qed


theorem keyword_hit_files_witness:
  "keyword_hit_of
     (example_commit ''c1'' ''2024-01-01'' ''rewrite''
        [example_file ''a.py'', example_file ''b.py'', example_file ''c.py'',
         example_file ''d.py'']) 1
     \<in> set (keyword_search
         (example_engine
            [example_commit ''c1'' ''2024-01-01'' ''rewrite''
               [example_file ''a.py'', example_file ''b.py'', example_file ''c.py'',
                example_file ''d.py'']]) ''rewrite'' 10)
   \<and> k_file_changes
       (keyword_hit_of
          (example_commit ''c1'' ''2024-01-01'' ''rewrite''
             [example_file ''a.py'', example_file ''b.py'', example_file ''c.py'',
              example_file ''d.py'']) 1)
     = [example_file ''a.py'', example_file ''b.py'', example_file ''c.py'']
   \<and> length (k_file_changes
       (keyword_hit_of
          (example_commit ''c1'' ''2024-01-01'' ''rewrite''
             [example_file ''a.py'', example_file ''b.py'', example_file ''c.py'',
              example_file ''d.py'']) 1)) \<le> 3"
proof -
  let ?c = "example_commit ''c1'' ''2024-01-01'' ''rewrite''
        [example_file ''a.py'', example_file ''b.py'', example_file ''c.py'',
         example_file ''d.py'']"
  have mem: "keyword_hit_of ?c 1 \<in> set (keyword_search (example_engine [?c]) ''rewrite'' 10)"
    by (simp add: keyword_search_def commits_of_def keyword_search_on_def query_keywords_def
        py_split_def py_lower_def lower_char_def is_space_def score_of_def commit_text_def
        py_count_def count_from.simps py_take_def sorted_desc_def example_engine_def
        example_analysis_def example_commit_def example_file_def)
  from keyword_hit_files [OF mem]
  have "length (k_file_changes (keyword_hit_of ?c 1)) \<le> 3" by blast
  moreover have "k_file_changes (keyword_hit_of ?c 1)
      = [example_file ''a.py'', example_file ''b.py'', example_file ''c.py'']"
    by (simp add: keyword_hit_of_def example_commit_def)
  ultimately show ?thesis using mem by simp
qed

text \<open>
  C2, as the code has it. The keyword search lower-cases the query, splits it on
  whitespace and keeps every token, whatever its length: the score of a commit is the
  sum, over all the tokens, of the number of occurrences of the token in the commit's
  text, and the commits of positive score are the hits. The split drops a leading
  whitespace character and cuts a word (a non-empty string without whitespace) off at
  the whitespace character that follows it; lower-casing works character by character
  and keeps whitespace whitespace; so the tokens of words joined by spaces are the
  lower-cased words, all of them. No token is discarded for being short.
\<close>

theorem keyword_search_all_tokens:
  "keyword_search e query top_k =
     (if commits_of e = [] then []
      else py_take top_k (sorted_desc keyword_score
             (map (\<lambda>c. keyword_hit_of c
                      (sum_list (map (py_count (commit_text c)) (py_split (py_lower query)))))
                (filter (\<lambda>c. 0 < sum_list (map (py_count (commit_text c))
                                     (py_split (py_lower query))))
                   (commits_of e)))))
   \<and> py_split [] = []
   \<and> (is_space c \<longrightarrow> py_split (c # s) = py_split s)
   \<and> (t \<noteq> [] \<and> (\<forall>x \<in> set t. \<not> is_space x) \<longrightarrow>
        py_split t = [t] \<and> (is_space c \<longrightarrow> py_split (t @ c # s) = t # py_split s))
   \<and> py_lower (u @ v) = py_lower u @ py_lower v
   \<and> py_lower [x] = [lower_char x]
   \<and> is_space (lower_char x) = is_space x
   \<and> ((\<forall>w \<in> set ws. w \<noteq> [] \<and> (\<forall>x \<in> set w. \<not> is_space x)) \<longrightarrow>
        query_keywords (py_join '' '' ws) = map py_lower ws)"
proof -
  have 1: "keyword_search e query top_k =
     (if commits_of e = [] then []
      else py_take top_k (sorted_desc keyword_score
             (map (\<lambda>c. keyword_hit_of c
                      (sum_list (map (py_count (commit_text c)) (py_split (py_lower query)))))
                (filter (\<lambda>c. 0 < sum_list (map (py_count (commit_text c))
                                     (py_split (py_lower query))))
                   (commits_of e)))))"
    by (simp add: keyword_search_def keyword_search_on_def keyword_hits_filter score_of_sum
        query_keywords_def)
  have 2: "py_split [] = []" by (simp add: py_split_def)
  have 3: "is_space c \<longrightarrow> py_split (c # s) = py_split s"
    by (simp add: py_split_space)
  have 4: "t \<noteq> [] \<and> (\<forall>x \<in> set t. \<not> is_space x) \<longrightarrow>
        py_split t = [t] \<and> (is_space c \<longrightarrow> py_split (t @ c # s) = t # py_split s)"
    using py_split_word(1) [of t] py_split_word(2) [of t c s] by blast
  have 5: "py_lower (u @ v) = py_lower u @ py_lower v" "py_lower [x] = [lower_char x]"
    by (simp_all add: py_lower_def)
  have 6: "(\<forall>w \<in> set ws. w \<noteq> [] \<and> (\<forall>x \<in> set w. \<not> is_space x)) \<longrightarrow>
        query_keywords (py_join '' '' ws) = map py_lower ws"
    using query_keywords_join [of ws] by blast
  from 1 2 3 4 5 is_space_lower_char [of x] 6 show ?thesis by (intro conjI)
qed

theorem keyword_search_all_tokens_witness:
  "is_space CHR '' ''
   \<and> py_split (''in'' @ CHR '' '' # ''parser'') = [''in'', ''parser'']
   \<and> query_keywords (py_join '' '' [''The'', ''BUG'']) = [''the'', ''bug'']
   \<and> map keyword_score
       (keyword_search
          (example_engine [example_commit ''c1'' ''2024-01-01'' ''fix the bug in parser'' []])
          ''the bug'' 10) = [2]"
proof -
  have sp: "is_space CHR '' ''" by (simp add: is_space_def)
  have w1: "''in'' \<noteq> [] \<and> (\<forall>x \<in> set ''in''. \<not> is_space x)"
    by (simp add: is_space_def)
  have w2: "\<forall>w \<in> set [''The'', ''BUG'']. w \<noteq> [] \<and> (\<forall>x \<in> set w. \<not> is_space x)"
    by (simp add: is_space_def)
  have w3: "''parser'' \<noteq> [] \<and> (\<forall>x \<in> set ''parser''. \<not> is_space x)"
    by (simp add: is_space_def)
  note k = keyword_search_all_tokens
    [where e = "example_engine [example_commit ''c1'' ''2024-01-01'' ''fix the bug in parser'' []]"
      and query = "''the bug''" and top_k = 10 and c = "CHR '' ''" and t = "''in''"
      and s = "''parser''" and ws = "[''The'', ''BUG'']"]
  from k sp w1 have a: "py_split (''in'' @ CHR '' '' # ''parser'') = ''in'' # py_split ''parser''"
    by blast
  have b: "py_split ''parser'' = [''parser'']"
    using keyword_search_all_tokens [where t = "''parser''"] w3 by blast
  from k w2 have c: "query_keywords (py_join '' '' [''The'', ''BUG'']) = map py_lower [''The'', ''BUG'']"
    by blast
  have d: "map py_lower [''The'', ''BUG''] = [''the'', ''bug'']"
    by code_simp
  from k have "keyword_search
          (example_engine [example_commit ''c1'' ''2024-01-01'' ''fix the bug in parser'' []])
          ''the bug'' 10 =
     (if commits_of (example_engine [example_commit ''c1'' ''2024-01-01'' ''fix the bug in parser'' []]) = [] then []
      else py_take 10 (sorted_desc keyword_score
             (map (\<lambda>c. keyword_hit_of c
                      (sum_list (map (py_count (commit_text c)) (py_split (py_lower ''the bug'')))))
                (filter (\<lambda>c. 0 < sum_list (map (py_count (commit_text c))
                                     (py_split (py_lower ''the bug''))))
                   (commits_of (example_engine [example_commit ''c1'' ''2024-01-01'' ''fix the bug in parser'' []]))))))"
    by blast
  then have e: "map keyword_score
       (keyword_search
          (example_engine [example_commit ''c1'' ''2024-01-01'' ''fix the bug in parser'' []])
          ''the bug'' 10) = [2]"
    by (simp add: commits_of_def py_split_def py_lower_def lower_char_def is_space_def
      commit_text_def py_count_def count_from.simps py_take_def sorted_desc_def
      example_engine_def example_analysis_def example_commit_def keyword_hit_of_def)
  from sp a b c d e show ?thesis by simp
qed


text \<open>
  C2 as stated fails: the query "bug" has the single token "bug", of length 3; the code
  keeps it, and it gives the commit "fix bug in parser" the score 1, where the tokens of
  the specification give it the score 0.
\<close>

theorem short_token_counts:
  "length ''bug'' \<le> 3
   \<and> query_keywords ''bug'' = [''bug'']
   \<and> spec_keywords ''bug'' = []
   \<and> score_of (query_keywords ''bug'')
        (commit_text (example_commit ''c1'' ''2024-01-01'' ''fix bug in parser'' [])) = 1
   \<and> score_of (spec_keywords ''bug'')
        (commit_text (example_commit ''c1'' ''2024-01-01'' ''fix bug in parser'' [])) = 0
   \<and> map keyword_score
        (keyword_search
           (example_engine [example_commit ''c1'' ''2024-01-01'' ''fix bug in parser'' []])
           ''bug'' 10) = [1]"
  by (simp add: keyword_search_def commits_of_def keyword_search_on_def query_keywords_def
      spec_keywords_def py_split_def py_lower_def lower_char_def is_space_def score_of_def
      commit_text_def py_count_def count_from.simps py_take_def sorted_desc_def
      example_engine_def example_analysis_def example_commit_def keyword_hit_of_def)

section \<open>Time-range search\<close>

lemma time_range_search_unfold:
  "time_range_search e s t =
     sorted_desc t_date (map time_hit_of (filter (in_range s t) (commits_of e)))"
  by (cases "commits_of e = []")
     (simp_all add: time_range_search_def time_range_search_on_def sorted_desc_def)

text \<open>
  C8. The time-range search returns the hit of a commit exactly when
  \<open>start \<le> date \<le> end\<close> in the lexicographic order of strings, both bounds
  included, once per such commit, and the hits are in descending order of their dates.
  A commit dated "2024-03-15T10:00:00" is returned for the bounds "2024-03-15" and
  "2024-03-15T23:59:59", and not for the bounds "2024-03-16" and "2024-03-20".
\<close>

theorem time_range_inclusive:
  "(h \<in> set (time_range_search e s t)
      \<longleftrightarrow> (\<exists>c \<in> set (commits_of e). s \<le> date c \<and> date c \<le> t \<and> h = time_hit_of c))
   \<and> mset (time_range_search e s t)
       = image_mset time_hit_of
           (filter_mset (\<lambda>c. s \<le> date c \<and> date c \<le> t) (mset (commits_of e)))
   \<and> sorted_wrt (\<lambda>a b. t_date b \<le> t_date a) (time_range_search e s t)
   \<and> (c \<in> set (commits_of e) \<and> date c = ''2024-03-15T10:00:00''
        \<longrightarrow> time_hit_of c \<in> set (time_range_search e ''2024-03-15'' ''2024-03-15T23:59:59'')
          \<and> time_hit_of c \<notin> set (time_range_search e ''2024-03-16'' ''2024-03-20''))"
proof -
  have mem: "\<And>h s t. h \<in> set (time_range_search e s t)
      \<longleftrightarrow> (\<exists>c \<in> set (commits_of e). s \<le> date c \<and> date c \<le> t \<and> h = time_hit_of c)"
    unfolding time_range_search_unfold set_sorted_desc in_range_def by auto
  have ms: "mset (time_range_search e s t)
       = image_mset time_hit_of
           (filter_mset (\<lambda>c. s \<le> date c \<and> date c \<le> t) (mset (commits_of e)))"
    unfolding time_range_search_unfold mset_sorted_desc in_range_def by simp
  have srt: "sorted_wrt (\<lambda>a b. t_date b \<le> t_date a) (time_range_search e s t)"
    unfolding time_range_search_unfold by (rule descending_sorted_desc)
  have ex: "time_hit_of c \<in> set (time_range_search e ''2024-03-15'' ''2024-03-15T23:59:59'')
          \<and> time_hit_of c \<notin> set (time_range_search e ''2024-03-16'' ''2024-03-20'')"
    if c: "c \<in> set (commits_of e)" and d: "date c = ''2024-03-15T10:00:00''"
  proof
    have "''2024-03-15'' \<le> date c \<and> date c \<le> ''2024-03-15T23:59:59''"
      unfolding d by simp
    with c show "time_hit_of c \<in> set (time_range_search e ''2024-03-15'' ''2024-03-15T23:59:59'')"
      unfolding mem by blast
    show "time_hit_of c \<notin> set (time_range_search e ''2024-03-16'' ''2024-03-20'')"
    proof
      assume "time_hit_of c \<in> set (time_range_search e ''2024-03-16'' ''2024-03-20'')"
      then obtain c' where "''2024-03-16'' \<le> date c'" and "time_hit_of c = time_hit_of c'"
        unfolding mem by blast
      then have "''2024-03-16'' \<le> date c"
        by (simp add: time_hit_of_def)
      then show False unfolding d by simp
    qed
  qed
  from mem ms srt ex show ?thesis by blast
qed


theorem time_range_inclusive_witness:
  "example_commit ''c1'' ''2024-03-15T10:00:00'' ''release'' []
     \<in> set (commits_of
         (example_engine [example_commit ''c1'' ''2024-03-15T10:00:00'' ''release'' []]))
   \<and> date (example_commit ''c1'' ''2024-03-15T10:00:00'' ''release'' [])
       = ''2024-03-15T10:00:00''
   \<and> time_hit_of (example_commit ''c1'' ''2024-03-15T10:00:00'' ''release'' [])
     \<in> set (time_range_search
         (example_engine [example_commit ''c1'' ''2024-03-15T10:00:00'' ''release'' []])
         ''2024-03-15'' ''2024-03-15T23:59:59'')
   \<and> time_hit_of (example_commit ''c1'' ''2024-03-15T10:00:00'' ''release'' [])
     \<notin> set (time_range_search
         (example_engine [example_commit ''c1'' ''2024-03-15T10:00:00'' ''release'' []])
         ''2024-03-16'' ''2024-03-20'')"
proof -
  let ?c = "example_commit ''c1'' ''2024-03-15T10:00:00'' ''release'' []"
  have hyp: "?c \<in> set (commits_of (example_engine [?c])) \<and> date ?c = ''2024-03-15T10:00:00''"
    by (simp add: commits_of_def example_engine_def example_analysis_def example_commit_def)
  from time_range_inclusive [where e = "example_engine [?c]" and c = ?c] hyp
  show ?thesis by blast
qed

section \<open>The router\<close>

lemma process_query_loaded:
  assumes "analysis_data e \<noteq> None" and "embeddings_model e \<noteq> None"
  shows "process_query w e query rid search_type = (Answer (route w e query rid search_type), e)"
  using assms by (auto simp: process_query_def)

lemma route_search_type:
  "r_search_type (route w e query rid search_type)
     = fst (execute w e query
              (if search_type = ''auto'' then auto_detect (py_lower query) else search_type))"
  by (simp add: route_def Let_def split: prod.split)

lemma route_results:
  "r_results (route w e query rid search_type)
     = fst (snd (execute w e query
              (if search_type = ''auto'' then auto_detect (py_lower query) else search_type)))"
  by (simp add: route_def Let_def split: prod.split)

lemma execute_author:
  "execute w e query ''author'' =
     (''author'',
      map Author (author_search e
         (py_strip (py_replace (py_replace (py_lower query) ''author'' []) ''who'' []))), None)"
  by (simp add: execute_def)

lemma execute_combined:
  assumes "st \<notin> {''semantic'', ''keyword'', ''author'', ''file'', ''summary''}"
  shows "execute w e query st = (''combined'', combined_results w e query, None)"
  using assms by (simp add: execute_def)

text \<open>
  C7. The automatic classification tests the triggers in the order author, file,
  time range, and falls back to semantic. A loaded engine therefore answers every query
  that contains "author" or "who" with the author search, whatever else the query
  contains; "who modified config.py" is answered by the author search for
  "modified config.py".
\<close>

theorem author_precedes_file:
  "auto_detect ql =
     (if py_in ''author'' ql \<or> py_in ''who'' ql then ''author''
      else if py_in ''file'' ql \<or> py_in ''.py'' ql \<or> py_in ''.js'' ql then ''file''
      else if (\<exists>t \<in> set [''before'', ''after'', ''during'', ''2020'', ''2021'', ''2022'',
                            ''2023'', ''2024'']. py_in t ql) then ''time_range''
      else ''semantic'')
   \<and> (analysis_data e \<noteq> None \<and> embeddings_model e \<noteq> None
        \<and> (py_in ''author'' (py_lower query) \<or> py_in ''who'' (py_lower query))
      \<longrightarrow> (\<exists>a. process_query w e query rid ''auto'' = (Answer a, e)
             \<and> r_search_type a = ''author''
             \<and> r_results a = map Author (author_search e
                  (py_strip (py_replace (py_replace (py_lower query) ''author'' []) ''who'' [])))))
   \<and> auto_detect (py_lower ''who modified config.py'') = ''author''
   \<and> (analysis_data e \<noteq> None \<and> embeddings_model e \<noteq> None
      \<longrightarrow> (\<exists>a. process_query w e ''who modified config.py'' rid ''auto'' = (Answer a, e)
             \<and> r_search_type a = ''author''
             \<and> r_results a = map Author (author_search e ''modified config.py'')))"
proof -
  have order: "auto_detect ql =
     (if py_in ''author'' ql \<or> py_in ''who'' ql then ''author''
      else if py_in ''file'' ql \<or> py_in ''.py'' ql \<or> py_in ''.js'' ql then ''file''
      else if (\<exists>t \<in> set [''before'', ''after'', ''during'', ''2020'', ''2021'', ''2022'',
                            ''2023'', ''2024'']. py_in t ql) then ''time_range''
      else ''semantic'')" for ql
    unfolding auto_detect_def date_terms_def list_ex_iff by (rule refl)
  have general: "\<exists>a. process_query w e q rid ''auto'' = (Answer a, e)
             \<and> r_search_type a = ''author''
             \<and> r_results a = map Author (author_search e
                  (py_strip (py_replace (py_replace (py_lower q) ''author'' []) ''who'' [])))"
    if l: "analysis_data e \<noteq> None" "embeddings_model e \<noteq> None"
      and t: "py_in ''author'' (py_lower q) \<or> py_in ''who'' (py_lower q)" for q
  proof -
    from t have ad: "auto_detect (py_lower q) = ''author''" by (simp add: auto_detect_def)
    have "r_search_type (route w e q rid ''auto'') = ''author''"
      unfolding route_search_type by (simp add: ad execute_author)
    moreover have "r_results (route w e q rid ''auto'') = map Author (author_search e
                  (py_strip (py_replace (py_replace (py_lower q) ''author'' []) ''who'' [])))"
      unfolding route_results by (simp add: ad execute_author)
    ultimately show ?thesis using process_query_loaded [OF l] by blast
  qed
  have who: "py_in ''who'' (py_lower ''who modified config.py'')"
    by (simp add: py_lower_def lower_char_def)
  have ad: "auto_detect (py_lower ''who modified config.py'') = ''author''"
    using who by (simp add: auto_detect_def)
  have frag: "py_strip (py_replace (py_replace (py_lower ''who modified config.py'') ''author'' [])
                 ''who'' []) = ''modified config.py''"
    by (simp add: py_lower_def lower_char_def py_replace_def replace_from.simps py_strip_def
        is_space_def)
  have conc: "\<exists>a. process_query w e ''who modified config.py'' rid ''auto'' = (Answer a, e)
             \<and> r_search_type a = ''author''
             \<and> r_results a = map Author (author_search e ''modified config.py'')"
    if l: "analysis_data e \<noteq> None" "embeddings_model e \<noteq> None"
    using general [OF l, of "''who modified config.py''"] who unfolding frag by blast
  from order general ad conc show ?thesis by blast
qed


theorem author_precedes_file_witness:
  "analysis_data (example_engine []) \<noteq> None
   \<and> embeddings_model (example_engine []) \<noteq> None
   \<and> py_in ''.py'' (py_lower ''who modified config.py'')
   \<and> map_option r_search_type
       (answer_of (fst (process_query example_world (example_engine [])
                          ''who modified config.py'' ''0123456789ab'' ''auto'')))
     = Some ''author''"
proof -
  have l: "analysis_data (example_engine []) \<noteq> None
           \<and> embeddings_model (example_engine []) \<noteq> None"
    by (simp add: example_engine_def)
  have f: "py_in ''.py'' (py_lower ''who modified config.py'')"
    by (simp add: py_lower_def lower_char_def)
  from author_precedes_file [where e = "example_engine []" and w = example_world
      and rid = "''0123456789ab''"] l
  obtain a where "process_query example_world (example_engine [])
        ''who modified config.py'' ''0123456789ab'' ''auto'' = (Answer a, example_engine [])"
    and "r_search_type a = ''author''"
    by blast
  then show ?thesis using l f by (simp add: answer_of_def)
qed

lemmas string_eval = py_split_def py_lower_def lower_char_def is_space_def py_count_def
  count_from.simps py_replace_def replace_from.simps py_strip_def py_take_def sorted_desc_def

lemmas example_eval = example_engine_def example_analysis_def example_commit_def
  example_file_def example_world_def

section \<open>Combined mode\<close>

lemma unique_loop_first_occurrences:
  "unique_loop seen rs =
     first_occurrences result_hash
       (filter (\<lambda>r. result_hash r \<noteq> [] \<and> result_hash r \<notin> seen) rs)"
proof (induction rs arbitrary: seen)
  case Nil
  show ?case by simp
next
  case (Cons r rs)
  show ?case
  proof (cases "result_hash r \<noteq> [] \<and> result_hash r \<notin> seen")
    case True
    have "filter (\<lambda>y. result_hash y \<noteq> result_hash r)
            (filter (\<lambda>r. result_hash r \<noteq> [] \<and> result_hash r \<notin> seen) rs)
          = filter (\<lambda>x. result_hash x \<noteq> [] \<and> result_hash x \<notin> insert (result_hash r) seen) rs"
      by (auto intro: filter_cong)
    with True Cons.IH [of "insert (result_hash r) seen"] show ?thesis
      by (simp add: Let_def)
  next
    case False
    with Cons.IH [of seen] show ?thesis by (auto simp: Let_def)
  qed
qed

lemma combined_results_spec:
  "combined_results w e query =
     take 10 (first_occurrences result_hash
       (filter (\<lambda>r. result_hash r \<noteq> [])
          (map Semantic (semantic_search w e query 5) @ map Keyword (keyword_search e query 5))))"
  by (simp add: combined_results_def unique_loop_first_occurrences del: filter_append)

lemma set_unique_loop: "set (unique_loop seen rs) \<subseteq> set rs"
  by (induction rs arbitrary: seen) (auto simp: Let_def)

lemma combined_results_kinds:
  assumes "r \<in> set (combined_results w e query)"
  shows "(\<exists>h. r = Semantic h) \<or> (\<exists>h. r = Keyword h)"
proof -
  from assms have "r \<in> set (unique_loop {} (map Semantic (semantic_search w e query 5)
                 @ map Keyword (keyword_search e query 5)))"
    unfolding combined_results_def Let_def by (rule in_set_takeD)
  then have "r \<in> set (map Semantic (semantic_search w e query 5)
                 @ map Keyword (keyword_search e query 5))"
    by (rule subsetD [OF set_unique_loop])
  then show ?thesis by auto
qed

text \<open>
  C5, as the code has it. A loaded engine answers a query in combined mode (any search
  type other than the six named ones) with the five best semantic results followed by
  the five best keyword results, without the results whose hash is empty, each
  remaining hash kept at its first occurrence only (so a semantic result wins over a
  keyword result of the same hash), and at most ten entries.
\<close>

theorem combined_mode_results:
  assumes "analysis_data e \<noteq> None" and "embeddings_model e \<noteq> None"
    and "search_type \<notin> {''auto'', ''semantic'', ''keyword'', ''author'', ''file'', ''summary''}"
  shows "\<exists>a. process_query w e query rid search_type = (Answer a, e)
           \<and> r_search_type a = ''combined''
           \<and> r_results a =
               take 10 (first_occurrences result_hash
                 (filter (\<lambda>r. result_hash r \<noteq> [])
                    (map Semantic (semantic_search w e query 5)
                       @ map Keyword (keyword_search e query 5))))
           \<and> length (r_results a) \<le> 10"
proof -
  let ?a = "route w e query rid search_type"
  from assms(3) have na: "search_type \<noteq> ''auto''"
    and ex: "execute w e query search_type = (''combined'', combined_results w e query, None)"
    by (simp_all add: execute_combined)
  have 0: "process_query w e query rid search_type = (Answer ?a, e)"
    by (rule process_query_loaded [OF assms(1,2)])
  have 1: "r_search_type ?a = ''combined''"
    unfolding route_search_type using na ex by simp
  have "r_results ?a = combined_results w e query"
    unfolding route_results using na ex by simp
  then have 2: "r_results ?a =
               take 10 (first_occurrences result_hash
                 (filter (\<lambda>r. result_hash r \<noteq> [])
                    (map Semantic (semantic_search w e query 5)
                       @ map Keyword (keyword_search e query 5))))"
    by (simp only: combined_results_spec)
  have 3: "length (r_results ?a) \<le> 10"
    unfolding 2 by simp
  from 0 1 2 3 show ?thesis by blast
qed


theorem combined_mode_results_witness:
  "analysis_data (example_engine [example_commit ''c1'' ''2024-01-01'' ''fix bug'' []]) \<noteq> None
   \<and> embeddings_model (example_engine [example_commit ''c1'' ''2024-01-01'' ''fix bug'' []])
       \<noteq> None
   \<and> ''combined'' \<notin> {''auto'', ''semantic'', ''keyword'', ''author'', ''file'', ''summary''}
   \<and> map_option r_results
       (answer_of (fst (process_query example_world
          (example_engine [example_commit ''c1'' ''2024-01-01'' ''fix bug'' []])
          ''bug'' ''0123456789ab'' ''combined'')))
     = Some [Keyword (keyword_hit_of (example_commit ''c1'' ''2024-01-01'' ''fix bug'' []) 1)]"
proof -
  let ?c = "example_commit ''c1'' ''2024-01-01'' ''fix bug'' []"
  let ?e = "example_engine [?c]"
  have l: "analysis_data ?e \<noteq> None" "embeddings_model ?e \<noteq> None"
    by (simp_all add: example_engine_def)
  have st: "''combined'' \<notin> {''auto'', ''semantic'', ''keyword'', ''author'', ''file'', ''summary''}"
    by simp
  have sem: "semantic_search example_world ?e ''bug'' 5 = []"
    by (simp add: semantic_search_def semantic_search_try_def example_engine_def)
  have kw: "keyword_search ?e ''bug'' 5 = [keyword_hit_of ?c 1]"
    by (simp add: keyword_search_def commits_of_def keyword_search_on_def query_keywords_def
        score_of_def commit_text_def string_eval example_engine_def example_analysis_def
        example_commit_def)
  have h: "result_hash (Keyword (keyword_hit_of ?c 1) :: int result) \<noteq> []"
    by (simp add: keyword_hit_of_def example_commit_def)
  from combined_mode_results [OF l st, of example_world "''bug''" "''0123456789ab''"]
  obtain a where a: "process_query example_world ?e ''bug'' ''0123456789ab'' ''combined''
        = (Answer a, ?e)"
    and r: "r_results a = take 10 (first_occurrences result_hash
                 (filter (\<lambda>r. result_hash r \<noteq> [])
                    (map Semantic (semantic_search example_world ?e ''bug'' 5)
                       @ map Keyword (keyword_search ?e ''bug'' 5))))"
    by blast
  have "r_results a = [Keyword (keyword_hit_of ?c 1)]"
    unfolding r sem kw using h by simp
  then show ?thesis using l st a by (simp add: answer_of_def)
qed


text \<open>
  C5 as stated fails: a result whose hash is empty is not kept at its first occurrence,
  it is dropped. The store has one commit without a hash whose message contains "bug";
  keeping first occurrences gives its keyword hit, the engine returns nothing.
\<close>

theorem empty_hash_dropped:
  "map_option r_results
     (answer_of (fst (process_query example_world
        (example_engine [example_commit [] ''2024-01-01'' ''fix bug'' []])
        ''bug'' ''0123456789ab'' ''combined''))) = Some []
   \<and> take 10 (first_occurrences result_hash
        (map Semantic
           (semantic_search example_world
              (example_engine [example_commit [] ''2024-01-01'' ''fix bug'' []]) ''bug'' 5)
         @ map Keyword
           (keyword_search
              (example_engine [example_commit [] ''2024-01-01'' ''fix bug'' []]) ''bug'' 5)))
     = [Keyword (keyword_hit_of (example_commit [] ''2024-01-01'' ''fix bug'' []) 1)]"
proof -
  let ?c = "example_commit [] ''2024-01-01'' ''fix bug'' []"
  let ?e = "example_engine [?c]"
  have l: "analysis_data ?e \<noteq> None" "embeddings_model ?e \<noteq> None"
    by (simp_all add: example_engine_def)
  have sem: "semantic_search example_world ?e ''bug'' 5 = []"
    by (simp add: semantic_search_def semantic_search_try_def example_engine_def)
  have kw: "keyword_search ?e ''bug'' 5 = [keyword_hit_of ?c 1]"
    by (simp add: keyword_search_def commits_of_def keyword_search_on_def query_keywords_def
        score_of_def commit_text_def string_eval example_engine_def example_analysis_def
        example_commit_def)
  have h: "result_hash (Keyword (keyword_hit_of ?c 1) :: int result) = []"
    by (simp add: keyword_hit_of_def example_commit_def)
  have comb: "combined_results example_world ?e ''bug'' = []"
    unfolding combined_results_def sem kw Let_def using h by simp
  have ex: "execute example_world ?e ''bug'' ''combined''
      = (''combined'', combined_results example_world ?e ''bug'', None)"
    by (simp add: execute_combined)
  have res: "r_results (route example_world ?e ''bug'' ''0123456789ab'' ''combined'') = []"
    unfolding route_results by (simp add: ex comb)
  have 1: "map_option r_results
     (answer_of (fst (process_query example_world ?e ''bug'' ''0123456789ab'' ''combined'')))
       = Some []"
    unfolding process_query_loaded [OF l] by (simp add: answer_of_def res)
  have 2: "take 10 (first_occurrences result_hash
        (map Semantic (semantic_search example_world ?e ''bug'' 5)
         @ map Keyword (keyword_search ?e ''bug'' 5)))
     = [Keyword (keyword_hit_of ?c 1)]"
    unfolding sem kw by simp
  from 1 2 show ?thesis by (rule conjI)
qed


section \<open>Time-range queries in the router\<close>

lemma time_range_dispatch:
  assumes "analysis_data e \<noteq> None" and "embeddings_model e \<noteq> None"
    and "auto_detect (py_lower query) = ''time_range''"
  shows "process_query w e query rid ''auto'' = (Answer (route w e query rid ''auto''), e)"
    and "r_search_type (route w e query rid ''auto'') = ''combined''"
    and "r_results (route w e query rid ''auto'') = combined_results w e query"
proof -
  have ex: "execute w e query ''time_range'' = (''combined'', combined_results w e query, None)"
    by (simp add: execute_combined)
  show "process_query w e query rid ''auto'' = (Answer (route w e query rid ''auto''), e)"
    by (rule process_query_loaded [OF assms(1,2)])
  show "r_search_type (route w e query rid ''auto'') = ''combined''"
    unfolding route_search_type by (simp add: assms(3) ex)
  show "r_results (route w e query rid ''auto'') = combined_results w e query"
    unfolding route_results by (simp add: assms(3) ex)
qed

text \<open>
  C1. The query "changes before release" is classified as a time-range query, and the
  dispatch has no branch for that search type: the engine runs the combined search and
  reports the search type "combined". On a store with one commit of 15 March 2024 whose
  message is "release notes" the response is the keyword hit of that commit; the
  time-range search of the same store is not called.
\<close>

theorem time_range_query_runs_combined:
  "auto_detect (py_lower ''changes before release'') = ''time_range''
   \<and> map_option r_search_type
       (answer_of (fst (process_query example_world
          (example_engine [example_commit ''c1'' ''2024-03-15T10:00:00'' ''release notes'' []])
          ''changes before release'' ''0123456789ab'' ''auto''))) = Some ''combined''
   \<and> map_option r_results
       (answer_of (fst (process_query example_world
          (example_engine [example_commit ''c1'' ''2024-03-15T10:00:00'' ''release notes'' []])
          ''changes before release'' ''0123456789ab'' ''auto'')))
     = Some [Keyword (keyword_hit_of
               (example_commit ''c1'' ''2024-03-15T10:00:00'' ''release notes'' []) 1)]
   \<and> time_range_search
       (example_engine [example_commit ''c1'' ''2024-03-15T10:00:00'' ''release notes'' []])
       ''2024-03-15'' ''2024-03-15T23:59:59''
     = [time_hit_of (example_commit ''c1'' ''2024-03-15T10:00:00'' ''release notes'' [])]"
proof -
  let ?c = "example_commit ''c1'' ''2024-03-15T10:00:00'' ''release notes'' []"
  let ?e = "example_engine [?c]"
  have ad: "auto_detect (py_lower ''changes before release'') = ''time_range''"
    by (simp add: auto_detect_def date_terms_def py_lower_def lower_char_def)
  have l: "analysis_data ?e \<noteq> None" "embeddings_model ?e \<noteq> None"
    by (simp_all add: example_engine_def)
  have sem: "semantic_search example_world ?e ''changes before release'' 5 = []"
    by (simp add: semantic_search_def semantic_search_try_def example_engine_def)
  have kw: "keyword_search ?e ''changes before release'' 5 = [keyword_hit_of ?c 1]"
    by (simp add: keyword_search_def commits_of_def keyword_search_on_def query_keywords_def
        score_of_def commit_text_def string_eval example_engine_def example_analysis_def
        example_commit_def)
  have h: "result_hash (Keyword (keyword_hit_of ?c 1) :: int result) \<noteq> []"
    by (simp add: keyword_hit_of_def example_commit_def)
  have comb: "combined_results example_world ?e ''changes before release''
      = [Keyword (keyword_hit_of ?c 1)]"
    unfolding combined_results_def sem kw Let_def using h by simp
  have tr: "time_range_search ?e ''2024-03-15'' ''2024-03-15T23:59:59'' = [time_hit_of ?c]"
    by (simp add: time_range_search_def commits_of_def time_range_search_on_def in_range_def
        sorted_desc_def example_engine_def example_analysis_def example_commit_def)
  note d = time_range_dispatch [OF l ad, of example_world "''0123456789ab''"]
  show ?thesis
    by (simp only: ad d comb tr answer_of_def fst_conv response.case option.map simp_thms)
qed

section \<open>Loading\<close>

text \<open>
  C4, as the code has it. Loading succeeds exactly when the analysis file exists and
  reads, and neither the index file nor the metadata file, where present, fails to
  read. A missing index or metadata file does not fail the load: the engine keeps what
  it had for it. Nothing compares the three files with one another.
\<close>

theorem load_succeeds_iff:
  "(fst (load_analysis_data w e rid)
      \<longleftrightarrow> (\<exists>a. analysis_file (disk w rid) = Some (Inr a))
        \<and> (\<forall>x. index_file (disk w rid) \<noteq> Some (Inl x))
        \<and> (\<forall>x. metadata_file (disk w rid) \<noteq> Some (Inl x)))
   \<and> (fst (load_analysis_data w e rid) \<longrightarrow>
        Some (Inr (analysis_data (snd (load_analysis_data w e rid))))
          = analysis_file (disk w rid)
      \<and> embeddings_index (snd (load_analysis_data w e rid))
          = (case index_file (disk w rid) of Some (Inr ix) \<Rightarrow> Some ix
             | _ \<Rightarrow> embeddings_index e)
      \<and> commit_metadata (snd (load_analysis_data w e rid))
          = (case metadata_file (disk w rid) of Some (Inr md) \<Rightarrow> md
             | _ \<Rightarrow> commit_metadata e))"
  by (auto simp: load_analysis_data_def Let_def split: option.splits sum.splits)

theorem load_succeeds_iff_witness:
  "fst (load_analysis_data analysis_only_world init_engine ''0123456789ab'')
   \<and> embeddings_index
       (snd (load_analysis_data analysis_only_world
          (init_engine :: (unit, unit) engine) ''0123456789ab'')) = None
   \<and> commit_metadata
       (snd (load_analysis_data analysis_only_world
          (init_engine :: (unit, unit) engine) ''0123456789ab'')) = []"
proof -
  have f: "fst (load_analysis_data analysis_only_world
             (init_engine :: (unit, unit) engine) ''0123456789ab'')"
    by (simp add: load_analysis_data_def analysis_only_world_def example_world_def)
  from load_succeeds_iff [of analysis_only_world "init_engine :: (unit, unit) engine"
      "''0123456789ab''"] f
  show ?thesis
    by (simp add: analysis_only_world_def example_world_def init_engine_def)
qed

text \<open>
  C4 as stated fails: the load succeeds on a disk that has the analysis file only, and
  on a disk whose analysis has three commits, whose index has two vectors and whose
  metadata has one entry.
\<close>

theorem load_accepts_missing_and_mismatch:
  "index_file (disk analysis_only_world ''0123456789ab'') = None
   \<and> metadata_file (disk analysis_only_world ''0123456789ab'') = None
   \<and> fst (load_analysis_data analysis_only_world
        (init_engine :: (unit, unit) engine) ''0123456789ab'') = True
   \<and> index_file (disk mismatched_world ''0123456789ab'') = Some (Inr 2)
   \<and> map_option (map_sum id length) (metadata_file (disk mismatched_world ''0123456789ab''))
       = Some (Inr 1)
   \<and> map_option (map_sum id (map_option (length \<circ> commits_data)))
        (analysis_file (disk mismatched_world ''0123456789ab'')) = Some (Inr (Some 3))
   \<and> fst (load_analysis_data mismatched_world
        (init_engine :: (unit, nat) engine) ''0123456789ab'') = True"
  by (simp add: load_analysis_data_def analysis_only_world_def mismatched_world_def
      example_world_def example_analysis_def)


section \<open>The searches and the loaded state\<close>

lemma semantic_loop_frame:
  "semantic_loop md i found objs = (results, objs')
     \<Longrightarrow> length objs \<le> length objs' \<and> take (length objs) objs' = objs
         \<and> (\<forall>r \<in> set results. length objs \<le> r \<and> r < length objs')"
proof (induction found arbitrary: i objs results objs')
  case Nil
  then show ?case by simp
next
  case (Cons p rest)
  obtain sim idx where p: "p = (sim, idx)" by (cases p)
  show ?case
  proof (cases "0 \<le> idx \<and> idx < int (length md)")
    case False
    with Cons.prems p have "semantic_loop md (i + 1) rest objs = (results, objs')" by simp
    then show ?thesis by (rule Cons.IH)
  next
    case True
    define objs3 where
      "objs3 = dict_set (length objs) ''rank'' (PyNat (i + 1))
                 (dict_set (length objs) ''similarity_score'' (PyFloat sim)
                    (objs @ [objs ! (md ! nat idx)]))"
    obtain rs objs4 where rec: "semantic_loop md (i + 1) rest objs3 = (rs, objs4)"
      by (cases "semantic_loop md (i + 1) rest objs3")
    from Cons.prems p True rec have res: "results = length objs # rs" and o4: "objs' = objs4"
      by (simp_all add: dict_copy_def objs3_def Let_def)
    have len3: "length objs3 = Suc (length objs)"
      by (simp add: objs3_def dict_set_def)
    have take3: "take (length objs) objs3 = objs"
      by (simp add: objs3_def dict_set_def)
    from Cons.IH [OF rec] have ih: "length objs3 \<le> length objs4"
      "take (length objs3) objs4 = objs3"
      "\<forall>r \<in> set rs. length objs3 \<le> r \<and> r < length objs4" by simp_all
    have "take (length objs) objs4 = take (length objs) (take (length objs3) objs4)"
      by (simp add: len3 min_def)
    also have "\<dots> = objs" by (simp only: ih(2) take3)
    finally have t: "take (length objs) objs4 = objs" .
    from ih len3 have "\<forall>r \<in> set results. length objs \<le> r \<and> r < length objs4"
      unfolding res by auto
    with ih(1) len3 t show ?thesis unfolding o4 by simp
  qed
qed


lemma semantic_hit_dict_extend:
  "semantic_hit_dict (metadata.extend m (semantic_hit.fields sim k))
     = (metadata_dict m)(''similarity_score'' \<mapsto> PyFloat sim, ''rank'' \<mapsto> PyNat k)"
  by (simp add: semantic_hit_dict_def metadata_dict_def metadata.defs semantic_hit.defs)

lemma semantic_loop_refines:
  assumes "\<forall>r \<in> set md. r < length objs"
    and "map (\<lambda>r. objs ! r) md = map metadata_dict mds"
  shows "map (\<lambda>r. snd (semantic_loop md i found objs) ! r) (fst (semantic_loop md i found objs))
           = map semantic_hit_dict (semantic_hits mds i found)"
  using assms
proof (induction found arbitrary: i objs)
  case Nil
  show ?case by simp
next
  case (Cons p rest)
  obtain sim idx where p: "p = (sim, idx)" by (cases p)
  have len: "length md = length mds"
    using Cons.prems(2) by (metis length_map)
  show ?case
  proof (cases "0 \<le> idx \<and> idx < int (length md)")
    case False
    have l: "semantic_loop md i (p # rest) objs = semantic_loop md (i + 1) rest objs"
      using p False by auto
    have "\<not> (0 \<le> idx \<and> idx < int (length mds))"
      using False unfolding len .
    then have h: "semantic_hits mds i (p # rest) = semantic_hits mds (i + 1) rest"
      using p by auto
    show ?thesis unfolding l h by (rule Cons.IH [OF Cons.prems])
  next
    case True
    define objs3 where
      "objs3 = dict_set (length objs) ''rank'' (PyNat (i + 1))
                 (dict_set (length objs) ''similarity_score'' (PyFloat sim)
                    (objs @ [objs ! (md ! nat idx)]))"
    obtain rs objs4 where rec: "semantic_loop md (i + 1) rest objs3 = (rs, objs4)"
      by (cases "semantic_loop md (i + 1) rest objs3")
    have step: "semantic_loop md i (p # rest) objs = (length objs # rs, objs4)"
      using p True rec by (simp add: dict_copy_def objs3_def Let_def)
    have len3: "length objs3 = Suc (length objs)"
      by (simp add: objs3_def dict_set_def)
    have old: "objs3 ! r = objs ! r" if "r < length objs" for r
      using that by (simp add: objs3_def dict_set_def nth_append)
    have n: "nat idx < length md" using True by (simp add: nat_less_iff)
    have "objs ! (md ! nat idx) = metadata_dict (mds ! nat idx)"
      using Cons.prems(2) n len by (metis nth_map)
    then have new: "objs3 ! length objs = semantic_hit_dict
        (metadata.extend (mds ! nat idx) (semantic_hit.fields sim (i + 1)))"
      by (simp add: objs3_def dict_set_def semantic_hit_dict_extend)
    have p1: "\<forall>r \<in> set md. r < length objs3" using Cons.prems(1) len3 by auto
    have p2: "map (\<lambda>r. objs3 ! r) md = map metadata_dict mds"
      using Cons.prems old by (metis (no_types, lifting) map_eq_conv)
    from Cons.IH [OF p1 p2, of "i + 1"] rec
    have ih: "map (\<lambda>r. objs4 ! r) rs = map semantic_hit_dict (semantic_hits mds (i + 1) rest)"
      by simp
    from semantic_loop_frame [OF rec] len3
    have "take (Suc (length objs)) objs4 = objs3" by simp
    then have "objs4 ! length objs = objs3 ! length objs"
      by (metis lessI nth_take)
    have "0 \<le> idx \<and> idx < int (length mds)"
      using True unfolding len .
    then have h: "semantic_hits mds i (p # rest)
        = metadata.extend (mds ! nat idx) (semantic_hit.fields sim (i + 1))
            # semantic_hits mds (i + 1) rest"
      using p by simp
    show ?thesis unfolding step h using new ih \<open>objs4 ! length objs = objs3 ! length objs\<close>
      by simp
  qed
qed


lemma process_query_keeps_store:
  assumes "analysis_data e \<noteq> None"
  shows "analysis_data (snd (process_query w e query rid search_type)) = analysis_data e"
    and "commit_metadata (snd (process_query w e query rid search_type)) = commit_metadata e"
    and "embeddings_index (snd (process_query w e query rid search_type)) = embeddings_index e"
  using assms
  by (auto simp: process_query_def initialize_model_def split: sum.splits)

text \<open>
  C9. The searches are functions of the engine that build new result dictionaries and
  assign no attribute of the engine. A query of any search type on an engine whose
  analysis is loaded leaves the commit data, the metadata list and the index as they
  were, and leaves the whole engine as it was when the model is there too. The loop of
  the semantic search, which writes the score and the rank into the copies it makes,
  leaves every object of the store as it was (the metadata dictionaries among them):
  its results are new objects.
\<close>

theorem searches_keep_loaded_state:
  "(analysis_data e \<noteq> None \<longrightarrow>
      analysis_data (snd (process_query w e query rid search_type)) = analysis_data e
    \<and> commit_metadata (snd (process_query w e query rid search_type)) = commit_metadata e
    \<and> embeddings_index (snd (process_query w e query rid search_type)) = embeddings_index e)
   \<and> (analysis_data e \<noteq> None \<and> embeddings_model e \<noteq> None \<longrightarrow>
        snd (process_query w e query rid search_type) = e)
   \<and> (semantic_loop md i found objs = (results, objs') \<longrightarrow>
        take (length objs) objs' = objs
      \<and> (\<forall>r \<in> set results. length objs \<le> r \<and> r < length objs'))"
proof -
  have 1: "analysis_data e \<noteq> None \<longrightarrow>
      analysis_data (snd (process_query w e query rid search_type)) = analysis_data e
    \<and> commit_metadata (snd (process_query w e query rid search_type)) = commit_metadata e
    \<and> embeddings_index (snd (process_query w e query rid search_type)) = embeddings_index e"
    using process_query_keeps_store by blast
  have 2: "analysis_data e \<noteq> None \<and> embeddings_model e \<noteq> None \<longrightarrow>
        snd (process_query w e query rid search_type) = e"
    using process_query_loaded [of e w query rid search_type] by simp
  have 3: "semantic_loop md i found objs = (results, objs') \<longrightarrow>
        take (length objs) objs' = objs
      \<and> (\<forall>r \<in> set results. length objs \<le> r \<and> r < length objs')"
    using semantic_loop_frame [of md i found objs results objs'] by blast
  from 1 2 3 show ?thesis by (intro conjI)
qed


theorem searches_keep_loaded_state_witness:
  "analysis_data (example_engine [example_commit ''c1'' ''2024-01-01'' ''fix bug'' []]) \<noteq> None
   \<and> embeddings_model (example_engine [example_commit ''c1'' ''2024-01-01'' ''fix bug'' []])
       \<noteq> None
   \<and> snd (process_query example_world
        (example_engine [example_commit ''c1'' ''2024-01-01'' ''fix bug'' []])
        ''bug'' ''0123456789ab'' ''keyword'')
     = example_engine [example_commit ''c1'' ''2024-01-01'' ''fix bug'' []]
   \<and> take (length [metadata_dict example_metadata :: int pydict])
        (snd (semantic_loop [0] 0 [(5, 0)] [metadata_dict example_metadata :: int pydict]))
     = [metadata_dict example_metadata]"
proof -
  let ?e = "example_engine [example_commit ''c1'' ''2024-01-01'' ''fix bug'' []]"
  let ?objs = "[metadata_dict example_metadata :: int pydict]"
  have l: "analysis_data ?e \<noteq> None \<and> embeddings_model ?e \<noteq> None"
    by (simp add: example_engine_def)
  have sl: "semantic_loop [0] 0 [(5, 0)] ?objs
      = (fst (semantic_loop [0] 0 [(5, 0)] ?objs), snd (semantic_loop [0] 0 [(5, 0)] ?objs))"
    by (rule prod.collapse [symmetric])
  from searches_keep_loaded_state [where e = ?e and w = example_world and query = "''bug''"
      and rid = "''0123456789ab''" and search_type = "''keyword''" and md = "[0]" and i = 0
      and found = "[(5, 0)]" and objs = ?objs
      and results = "fst (semantic_loop [0] 0 [(5, 0)] ?objs)"
      and objs' = "snd (semantic_loop [0] 0 [(5, 0)] ?objs)"] l sl
  show ?thesis by blast
qed

section \<open>Semantic search without a model or an index\<close>

lemma collect_embeddings_none:
  "\<forall>c \<in> set cs. embedding c = None \<or> embedding c = Some [] \<Longrightarrow> collect_embeddings cs = ([], [])"
  by (induction cs) (auto split: option.splits)

lemma semantic_search_unavailable:
  assumes "embeddings_model e = None \<or> embeddings_index e = None"
  shows "semantic_search_try w e query top_k = Inr []"
    and "semantic_search w e query top_k = []"
  using assms
  by (auto simp: semantic_search_def semantic_search_try_def split: option.splits)

lemma load_after_save_no_index:
  assumes "tm_embeddings_index tm = None" and "index_file (d rid) = None"
  shows "embeddings_index
           (snd (load_analysis_data (w\<lparr>disk := save_analysis_results tm rid a d\<rparr>)
              init_engine rid)) = None"
    and "metadata_file (d rid) = None \<Longrightarrow>
           load_analysis_data (w\<lparr>disk := save_analysis_results tm rid a d\<rparr>) init_engine rid
             = (True, init_engine\<lparr>analysis_data := Some (clean_data a)\<rparr>)"
  using assms
  by (auto simp: load_analysis_data_def save_analysis_results_def init_engine_def Let_def
      split: option.splits sum.splits)

lemma execute_semantic:
  "execute w e query ''semantic'' = (''semantic'', map Semantic (semantic_search w e query 10), None)"
  by (simp add: execute_def)

lemma semantic_mode_no_index:
  assumes "analysis_data e \<noteq> None" and "embeddings_index e = None"
  shows "embeddings_model e \<noteq> None \<or> (\<exists>m. new_model w = Inr m) \<Longrightarrow>
           \<exists>a. fst (process_query w e query rid ''semantic'') = Answer a
             \<and> r_search_type a = ''semantic'' \<and> r_results a = []"
    and "embeddings_model e = None \<and> new_model w = Inl x \<Longrightarrow>
           fst (process_query w e query rid ''semantic'') = Failed x query rid (now w)"
proof -
  have r: "r_search_type (route w e' query rid ''semantic'') = ''semantic''
         \<and> r_results (route w e' query rid ''semantic'') = []"
    if "embeddings_index e' = None" for e' :: "('a, 'b) engine"
    unfolding route_search_type route_results
    using semantic_search_unavailable(2) [of e' w query 10] that
    by (simp add: execute_semantic)
  show "\<exists>a. fst (process_query w e query rid ''semantic'') = Answer a
             \<and> r_search_type a = ''semantic'' \<and> r_results a = []"
    if m: "embeddings_model e \<noteq> None \<or> (\<exists>m. new_model w = Inr m)"
  proof (cases "embeddings_model e = None")
    case False
    with process_query_loaded [OF assms(1), of w query rid "''semantic''"] r [OF assms(2)]
    show ?thesis by simp
  next
    case True
    with m obtain m' where nm: "new_model w = Inr m'" by blast
    let ?e = "e\<lparr>embeddings_model := Some m'\<rparr>"
    have "fst (process_query w e query rid ''semantic'')
            = Answer (route w ?e query rid ''semantic'')"
      using assms(1) True nm by (auto simp: process_query_def initialize_model_def)
    moreover have "embeddings_index ?e = None" using assms(2) by simp
    ultimately show ?thesis using r [of ?e] by simp
  qed
  show "fst (process_query w e query rid ''semantic'') = Failed x query rid (now w)"
    if "embeddings_model e = None \<and> new_model w = Inl x"
    using assms(1) that by (auto simp: process_query_def initialize_model_def)
qed

text \<open>
  C6, as the code has it. The semantic search, called on an engine whose model or
  index is missing, returns the empty list and raises nothing. Through the router, the
  semantic mode of an engine that is loaded and has no index answers with an empty
  result list when the model is there or can be constructed, and with the error
  response when the model is missing and cannot be constructed. When no commit of the
  analysis has an embedding, a time machine without an index builds none and saves no
  index file; if the disk had no index file for the repository, the engine that loads
  the saved files has no index and its semantic search returns the empty list, and if
  the disk had no metadata file either and the model loads, the router answers a
  semantic query with an empty result list.
\<close>

theorem semantic_search_degrades:
  "(embeddings_model e = None \<or> embeddings_index e = None \<longrightarrow>
      semantic_search_try (w :: ('m, 'i, 's) world) e query top_k = Inr []
      \<and> semantic_search w e query top_k = [])
   \<and> (analysis_data e \<noteq> None \<and> embeddings_index e = None
        \<and> (embeddings_model e \<noteq> None \<or> (\<exists>m. new_model w = Inr m)) \<longrightarrow>
        (\<exists>a. fst (process_query w e query rid ''semantic'') = Answer a
           \<and> r_search_type a = ''semantic'' \<and> r_results a = []))
   \<and> (analysis_data e \<noteq> None \<and> embeddings_index e = None
        \<and> embeddings_model e = None \<and> new_model w = Inl x \<longrightarrow>
        fst (process_query w e query rid ''semantic'') = Failed x query rid (now w))
   \<and> ((\<forall>c \<in> set (commits_data a). embedding c = None \<or> embedding c = Some [])
        \<and> tm_embeddings_index tm = None \<and> index_file (d rid) = None \<longrightarrow>
        create_embeddings_index build tm (commits_data a) = (None, tm)
      \<and> index_file
          (save_analysis_results (snd (create_embeddings_index build tm (commits_data a)))
             rid a d rid) = None
      \<and> semantic_search
          (w\<lparr>disk := save_analysis_results
                (snd (create_embeddings_index build tm (commits_data a))) rid a d\<rparr>)
          (snd (load_analysis_data
             (w\<lparr>disk := save_analysis_results
                   (snd (create_embeddings_index build tm (commits_data a))) rid a d\<rparr>)
             init_engine rid))
          query top_k = []
      \<and> (metadata_file (d rid) = None \<and> new_model w = Inr m \<longrightarrow>
           map_option r_results
             (answer_of (fst (process_query
                (w\<lparr>disk := save_analysis_results
                      (snd (create_embeddings_index build tm (commits_data a))) rid a d\<rparr>)
                init_engine query rid ''semantic''))) = Some []))"
proof -
  have 1: "embeddings_model e = None \<or> embeddings_index e = None \<longrightarrow>
      semantic_search_try w e query top_k = Inr [] \<and> semantic_search w e query top_k = []"
    using semantic_search_unavailable [of e w query top_k] by blast
  have r1: "analysis_data e \<noteq> None \<and> embeddings_index e = None
        \<and> (embeddings_model e \<noteq> None \<or> (\<exists>m. new_model w = Inr m)) \<longrightarrow>
        (\<exists>a. fst (process_query w e query rid ''semantic'') = Answer a
           \<and> r_search_type a = ''semantic'' \<and> r_results a = [])"
    using semantic_mode_no_index(1) [of e w query rid] by blast
  have r2: "analysis_data e \<noteq> None \<and> embeddings_index e = None
        \<and> embeddings_model e = None \<and> new_model w = Inl x \<longrightarrow>
        fst (process_query w e query rid ''semantic'') = Failed x query rid (now w)"
    using semantic_mode_no_index(2) [of e w x query rid] by blast
  have 2: "create_embeddings_index build tm (commits_data a) = (None, tm)
      \<and> index_file
          (save_analysis_results (snd (create_embeddings_index build tm (commits_data a)))
             rid a d rid) = None
      \<and> semantic_search
          (w\<lparr>disk := save_analysis_results
                (snd (create_embeddings_index build tm (commits_data a))) rid a d\<rparr>)
          (snd (load_analysis_data
             (w\<lparr>disk := save_analysis_results
                   (snd (create_embeddings_index build tm (commits_data a))) rid a d\<rparr>)
             init_engine rid))
          query top_k = []
      \<and> (metadata_file (d rid) = None \<and> new_model w = Inr m \<longrightarrow>
           map_option r_results
             (answer_of (fst (process_query
                (w\<lparr>disk := save_analysis_results
                      (snd (create_embeddings_index build tm (commits_data a))) rid a d\<rparr>)
                init_engine query rid ''semantic''))) = Some [])"
    if none: "\<forall>c \<in> set (commits_data a). embedding c = None \<or> embedding c = Some []"
      and tm: "tm_embeddings_index tm = None" and d: "index_file (d rid) = None"
  proof -
    let ?w = "w\<lparr>disk := save_analysis_results tm rid a d\<rparr>"
    have c: "create_embeddings_index build tm (commits_data a) = (None, tm)"
      by (simp add: create_embeddings_index_def collect_embeddings_none [OF none])
    have s: "index_file (save_analysis_results tm rid a d rid) = None"
      using tm d by (simp add: save_analysis_results_def)
    note l = load_after_save_no_index [where tm = tm and d = d and rid = rid and w = w
        and a = a, OF tm d]
    have sem: "semantic_search ?w (snd (load_analysis_data ?w init_engine rid)) query top_k = []"
      by (rule semantic_search_unavailable(2)) (simp add: l(1))
    have pq: "map_option r_results
             (answer_of (fst (process_query ?w init_engine query rid ''semantic''))) = Some []"
      if md: "metadata_file (d rid) = None" and nm: "new_model w = Inr m"
    proof -
      let ?e = "(init_engine :: ('m, 'i) engine)\<lparr>analysis_data := Some (clean_data a),
                  embeddings_model := Some m\<rparr>"
      have "process_query ?w init_engine query rid ''semantic''
              = (Answer (route ?w ?e query rid ''semantic''), ?e)"
        using l(2) [OF md] nm
        by (simp add: process_query_def initialize_model_def init_engine_def)
      moreover have "semantic_search ?w ?e query 10 = []"
        by (rule semantic_search_unavailable(2)) (simp add: init_engine_def)
      then have "r_results (route ?w ?e query rid ''semantic'') = []"
        unfolding route_results by (simp add: execute_semantic)
      ultimately show ?thesis by (simp add: answer_of_def)
    qed
    from c s sem pq show ?thesis by simp
  qed
  from 1 r1 r2 2 show ?thesis by blast
qed

theorem semantic_search_degrades_witness:
  "analysis_data (example_engine [example_commit ''c1'' ''2024-01-01'' ''fix bug'' []]) \<noteq> None
   \<and> embeddings_index (example_engine [example_commit ''c1'' ''2024-01-01'' ''fix bug'' []])
       = None
   \<and> embeddings_model (example_engine [example_commit ''c1'' ''2024-01-01'' ''fix bug'' []])
       \<noteq> None
   \<and> map_option r_results
       (answer_of (fst (process_query example_world
          (example_engine [example_commit ''c1'' ''2024-01-01'' ''fix bug'' []])
          ''bug'' ''0123456789ab'' ''semantic''))) = Some []
   \<and> embeddings_model
       ((example_engine [example_commit ''c1'' ''2024-01-01'' ''fix bug'' []])
          \<lparr>embeddings_model := None\<rparr>) = None
   \<and> new_model broken_model_world = Inl ''model cannot be loaded''
   \<and> fst (process_query broken_model_world
       ((example_engine [example_commit ''c1'' ''2024-01-01'' ''fix bug'' []])
          \<lparr>embeddings_model := None\<rparr>)
       ''bug'' ''0123456789ab'' ''semantic'')
     = Failed ''model cannot be loaded'' ''bug'' ''0123456789ab'' (now broken_model_world)
   \<and> map embedding
     (commits_data (example_mined_analysis
        [example_mined ''c1'' ''fix bug'' None, example_mined ''c2'' ''add docs'' (Some [])]))
     = [None, Some []]
   \<and> tm_embeddings_index (init_time_machine :: (unit, unit) time_machine) = None
   \<and> index_file (disk example_world ''0123456789ab'') = None
   \<and> metadata_file (disk example_world ''0123456789ab'') = None
   \<and> new_model example_world = Inr ()
   \<and> embeddings_index (init_engine :: (unit, unit) engine) = None
   \<and> semantic_search example_world init_engine ''bug'' 10 = []
   \<and> map_option r_results
       (answer_of (fst (process_query
          (example_world\<lparr>disk := save_analysis_results
                (snd (create_embeddings_index (\<lambda>vs. Inr ())
                   (init_time_machine :: (unit, unit) time_machine)
                   (commits_data (example_mined_analysis
                      [example_mined ''c1'' ''fix bug'' None,
                       example_mined ''c2'' ''add docs'' (Some [])]))))
                ''0123456789ab''
                (example_mined_analysis
                   [example_mined ''c1'' ''fix bug'' None,
                    example_mined ''c2'' ''add docs'' (Some [])])
                (disk example_world)\<rparr>)
          init_engine ''bug'' ''0123456789ab'' ''semantic''))) = Some []"
proof -
  let ?e = "example_engine [example_commit ''c1'' ''2024-01-01'' ''fix bug'' []]"
  let ?a = "example_mined_analysis
        [example_mined ''c1'' ''fix bug'' None, example_mined ''c2'' ''add docs'' (Some [])]"
  have l: "analysis_data ?e \<noteq> None" "embeddings_index ?e = None"
    "embeddings_model ?e \<noteq> None"
    by (simp_all add: example_engine_def)
  have l': "analysis_data (?e\<lparr>embeddings_model := None\<rparr>) \<noteq> None"
    "embeddings_index (?e\<lparr>embeddings_model := None\<rparr>) = None"
    "embeddings_model (?e\<lparr>embeddings_model := None\<rparr>) = None"
    by (simp_all add: example_engine_def)
  have b: "new_model broken_model_world = Inl ''model cannot be loaded''"
    by (simp add: broken_model_world_def)
  from semantic_search_degrades [where e = ?e and w = example_world and query = "''bug''"
      and rid = "''0123456789ab''"] l
  obtain a where "fst (process_query example_world ?e ''bug'' ''0123456789ab'' ''semantic'')
      = Answer a" and "r_results a = []"
    by blast
  then have ok: "map_option r_results
       (answer_of (fst (process_query example_world ?e ''bug'' ''0123456789ab'' ''semantic'')))
       = Some []"
    by (simp add: answer_of_def)
  from semantic_search_degrades [where e = "?e\<lparr>embeddings_model := None\<rparr>"
      and w = broken_model_world and query = "''bug''" and rid = "''0123456789ab''"
      and x = "''model cannot be loaded''"] l' b
  have err: "fst (process_query broken_model_world (?e\<lparr>embeddings_model := None\<rparr>)
       ''bug'' ''0123456789ab'' ''semantic'')
     = Failed ''model cannot be loaded'' ''bug'' ''0123456789ab'' (now broken_model_world)"
    by blast
  have emb: "map embedding (commits_data ?a) = [None, Some []]"
    by (simp add: example_mined_analysis_def example_mined_def commit.defs mined_commit.defs)
  then have none: "\<forall>c \<in> set (commits_data ?a). embedding c = None \<or> embedding c = Some []"
    by (simp add: example_mined_analysis_def)
  have tm: "tm_embeddings_index (init_time_machine :: (unit, unit) time_machine) = None"
    by (simp add: init_time_machine_def)
  have d: "index_file (disk example_world ''0123456789ab'') = None"
    "metadata_file (disk example_world ''0123456789ab'') = None"
    "new_model example_world = Inr ()"
    by (simp_all add: example_world_def)
  have ix: "embeddings_index (init_engine :: (unit, unit) engine) = None"
    by (simp add: init_engine_def)
  from semantic_search_degrades [where e = "init_engine :: (unit, unit) engine"
      and w = example_world and query = "''bug''" and top_k = 10 and a = ?a
      and tm = "init_time_machine :: (unit, unit) time_machine"
      and d = "disk example_world" and rid = "''0123456789ab''" and build = "\<lambda>vs. Inr ()"
      and m = "()"] none tm d ix
  have pipe: "semantic_search example_world init_engine ''bug'' 10 = []
   \<and> map_option r_results
       (answer_of (fst (process_query
          (example_world\<lparr>disk := save_analysis_results
                (snd (create_embeddings_index (\<lambda>vs. Inr ())
                   (init_time_machine :: (unit, unit) time_machine) (commits_data ?a)))
                ''0123456789ab'' ?a (disk example_world)\<rparr>)
          init_engine ''bug'' ''0123456789ab'' ''semantic''))) = Some []"
    by blast
  from l l'(3) ok b err emb tm d ix pipe show ?thesis by (intro conjI) blast+
qed

text \<open>
  C6 as stated fails in two ways. When the model cannot be constructed, the router
  answers a semantic query with the error response, not with an empty result list. And
  a store without any embedded commit that is saved over the files of an earlier run
  keeps that run's index and metadata files: the engine loads them and the semantic
  mode returns the earlier run's commits.
\<close>

theorem semantic_mode_error_and_stale_index:
  "embeddings_model (init_engine :: (unit, unit) engine) = None
   \<and> new_model broken_model_world = Inl ''model cannot be loaded''
   \<and> fst (process_query broken_model_world init_engine ''bug'' ''0123456789ab'' ''semantic'')
       = Failed ''model cannot be loaded'' ''bug'' ''0123456789ab'' ''2024-06-02T12:00:00''
   \<and> map embedding
       (commits_data (example_mined_analysis
          [example_mined ''c1'' ''fix bug'' None, example_mined ''c2'' ''add docs'' (Some [])]))
       = [None, Some []]
   \<and> create_embeddings_index (\<lambda>vs. Inr ()) (init_time_machine :: (unit, unit) time_machine)
       (commits_data (example_mined_analysis
          [example_mined ''c1'' ''fix bug'' None, example_mined ''c2'' ''add docs'' (Some [])]))
       = (None, init_time_machine)
   \<and> map_option (map result_hash \<circ> r_results)
       (answer_of (fst (process_query
          (stale_index_world\<lparr>disk := save_analysis_results
                (init_time_machine :: (unit, unit) time_machine) ''0123456789ab''
                (example_mined_analysis
                   [example_mined ''c1'' ''fix bug'' None,
                    example_mined ''c2'' ''add docs'' (Some [])])
                (disk stale_index_world)\<rparr>)
          init_engine ''bug'' ''0123456789ab'' ''semantic''))) = Some [''zz'']"
proof -
  let ?a = "example_mined_analysis
        [example_mined ''c1'' ''fix bug'' None, example_mined ''c2'' ''add docs'' (Some [])]"
  have 1: "embeddings_model (init_engine :: (unit, unit) engine) = None"
    by (simp add: init_engine_def)
  have 2: "new_model broken_model_world = Inl ''model cannot be loaded''"
    by (simp add: broken_model_world_def)
  have 3: "fst (process_query broken_model_world init_engine ''bug'' ''0123456789ab'' ''semantic'')
       = Failed ''model cannot be loaded'' ''bug'' ''0123456789ab'' ''2024-06-02T12:00:00''"
    by (simp add: process_query_def load_analysis_data_def initialize_model_def
        broken_model_world_def analysis_only_world_def example_world_def init_engine_def)
  have 4: "map embedding (commits_data ?a) = [None, Some []]"
    by (simp add: example_mined_analysis_def example_mined_def commit.defs mined_commit.defs)
  have 5: "create_embeddings_index (\<lambda>vs. Inr ())
       (init_time_machine :: (unit, unit) time_machine) (commits_data ?a)
       = (None, init_time_machine)"
    by (simp add: create_embeddings_index_def example_mined_analysis_def example_mined_def
        commit.defs mined_commit.defs)
  let ?w = "stale_index_world\<lparr>disk := save_analysis_results
                (init_time_machine :: (unit, unit) time_machine) ''0123456789ab'' ?a
                (disk stale_index_world)\<rparr>"
  let ?e = "\<lparr> embeddings_model = Some (), embeddings_index = Some (),
             commit_metadata = [example_metadata\<lparr>m_hash := ''zz''\<rparr>],
             analysis_data = Some (clean_data ?a) \<rparr>"
  have ld: "load_analysis_data ?w init_engine ''0123456789ab''
      = (True, ?e\<lparr>embeddings_model := None\<rparr>)"
    by (simp add: load_analysis_data_def save_analysis_results_def stale_index_world_def
        init_time_machine_def init_engine_def)
  have pq: "process_query ?w init_engine ''bug'' ''0123456789ab'' ''semantic''
      = (Answer (route ?w ?e ''bug'' ''0123456789ab'' ''semantic''), ?e)"
  proof -
    have i0: "analysis_data (init_engine :: (unit, unit) engine) = None"
      by (simp add: init_engine_def)
    have nm: "new_model ?w = Inr ()"
      by (simp add: stale_index_world_def)
    show ?thesis
      by (simp add: process_query_def i0 ld initialize_model_def nm)
  qed
  have sem: "map m_hash (semantic_search ?w ?e ''bug'' 10) = [''zz'']"
    by (simp add: semantic_search_def semantic_search_try_def stale_index_world_def
        metadata.defs)
  have "map result_hash (r_results (route ?w ?e ''bug'' ''0123456789ab'' ''semantic''))
      = [''zz'']"
    unfolding route_results using sem by (simp add: execute_semantic comp_def)
  then have 6: "map_option (map result_hash \<circ> r_results)
       (answer_of (fst (process_query ?w init_engine ''bug'' ''0123456789ab'' ''semantic'')))
         = Some [''zz'']"
    unfolding pq by (simp add: answer_of_def)
  from 1 2 3 4 5 6 show ?thesis by (intro conjI)
qed


end
